theory Spec2Isabelle
  imports Main "HOL-Library.AList"
begin

section \<open>Project details form: validation\<close>

text \<open>
  \<^verbatim>\<open>CreateProjectValidation\<close> (validation/CreateProjectValidation).  The values object
  follows the interface \<^verbatim>\<open>ProjectValues\<close>; a field is \<open>None\<close> when the property is
  \<^verbatim>\<open>undefined\<close> or \<^verbatim>\<open>null\<close>.  The field \<^verbatim>\<open>id\<close> is written \<open>id_\<close>.  A string is the
  list of its code units, which are 8-bit characters here: text outside Latin-1 is not
  covered.
\<close>

record ProjectValues =
  organisation_id :: "string option"
  name :: "string option"
  username :: "string option"
  id_ :: "string option"
  short_description :: "string option"
  description :: "string option"
  hashtags :: "string option"
  odk_central_url :: "string option"
  odk_central_user :: "string option"
  odk_central_password :: "string option"
  defaultODKCredentials :: "bool option"

text \<open>
  The errors object \<^verbatim>\<open>ValidationErrors\<close>: property name and message, in the order the
  properties were first assigned.  \<^verbatim>\<open>errors.k = m\<close> is \<open>AList.update k m errors\<close>.
\<close>

type_synonym ValidationErrors = "(string \<times> string) list"

text \<open>JavaScript truthiness of a string and of a boolean that may be missing.\<close>

fun truthy_str :: "string option \<Rightarrow> bool" where
  "truthy_str None = False"
| "truthy_str (Some s) = (s \<noteq> [])"

fun truthy_bool :: "bool option \<Rightarrow> bool" where
  "truthy_bool None = False"
| "truthy_bool (Some b) = b"

text \<open>
  \<^verbatim>\<open>regexForSymbol = /_/g\<close> is a module-level regular expression with the global
  flag, so \<^verbatim>\<open>regexForSymbol.test\<close> reads and writes its \<^verbatim>\<open>lastIndex\<close>: the search
  starts at \<^verbatim>\<open>lastIndex\<close>; a match at position \<open>p\<close> sets \<^verbatim>\<open>lastIndex\<close> to \<open>p + 1\<close>
  (the end of the one-character match), no match sets it to 0.  The function returns the
  result of \<^verbatim>\<open>test\<close> and the new \<^verbatim>\<open>lastIndex\<close>.
\<close>

definition regexForSymbol_test :: "nat \<Rightarrow> string \<Rightarrow> bool \<times> nat" where
  "regexForSymbol_test lastIndex s =
     (case List.find (\<lambda>p. s ! p = CHR ''_'') [lastIndex ..< length s] of
        None \<Rightarrow> (False, 0)
      | Some p \<Rightarrow> (True, p + 1))"

text \<open>
  A guarded assignment \<^verbatim>\<open>if (c) { errors.k = m; }\<close>, as the errors object after it.
\<close>

definition assign_if :: "bool \<Rightarrow> string \<Rightarrow> string \<Rightarrow> ValidationErrors \<Rightarrow> ValidationErrors" where
  "assign_if c k m errors = (if c then AList.update k m errors else errors)"

text \<open>
  \<^verbatim>\<open>values?.f\<close>: the values object itself may be missing.
\<close>

definition opt_field :: "ProjectValues option \<Rightarrow> (ProjectValues \<Rightarrow> 'a option) \<Rightarrow> 'a option" where
  "opt_field values f = (case values of None \<Rightarrow> None | Some v \<Rightarrow> f v)"

text \<open>
  \<^verbatim>\<open>isValidUrl\<close> (utilfunctions/urlChecker) is a parameter.  The state of the module,
  \<^verbatim>\<open>regexForSymbol.lastIndex\<close>, is passed in and returned with the errors object;
  \<^verbatim>\<open>test\<close> runs only when \<^verbatim>\<open>values?.name\<close> is truthy (\<^verbatim>\<open>&&\<close> short-circuits).
\<close>

definition CreateProjectValidation ::
  "(string \<Rightarrow> bool) \<Rightarrow> nat \<Rightarrow> ProjectValues option \<Rightarrow> ValidationErrors \<times> nat" where
  "CreateProjectValidation isValidUrl lastIndex values =
     (let errors = [];
          errors = assign_if (\<not> truthy_str (opt_field values organisation_id))
                     ''organisation_id'' ''Organization is Required.'' errors;
          errors = assign_if (\<not> truthy_bool (opt_field values defaultODKCredentials)
                               \<and> \<not> truthy_str (opt_field values odk_central_url))
                     ''odk_central_url'' ''ODK URL is Required.'' errors;
          errors = assign_if (\<not> truthy_bool (opt_field values defaultODKCredentials)
                               \<and> truthy_str (opt_field values odk_central_url)
                               \<and> \<not> isValidUrl (the (opt_field values odk_central_url)))
                     ''odk_central_url'' ''Invalid URL.'' errors;
          errors = assign_if (\<not> truthy_bool (opt_field values defaultODKCredentials)
                               \<and> \<not> truthy_str (opt_field values odk_central_user))
                     ''odk_central_user'' ''ODK Central User is Required.'' errors;
          errors = assign_if (\<not> truthy_bool (opt_field values defaultODKCredentials)
                               \<and> \<not> truthy_str (opt_field values odk_central_password))
                     ''odk_central_password'' ''ODK Central Password is Required.'' errors;
          errors = assign_if (\<not> truthy_str (opt_field values name))
                     ''name'' ''Project Name is Required.'' errors;
          tested = (if truthy_str (opt_field values name)
                    then regexForSymbol_test lastIndex (the (opt_field values name))
                    else (False, lastIndex));
          errors = assign_if (fst tested)
                     ''name'' ''Project Name should not contain _ .'' errors;
          errors = assign_if (\<not> truthy_str (opt_field values short_description))
                     ''short_description'' ''Short Description is Required.'' errors;
          errors = assign_if (\<not> truthy_str (opt_field values description))
                     ''description'' ''Description is Required.'' errors
      in (errors, snd tested))"

text \<open>
  \<^verbatim>\<open>ProjectDetailsForm.tsx\<close>: the \<^verbatim>\<open>submission\<close> callback handed to \<^verbatim>\<open>useForm\<close>, as the
  list of what it does: two dispatches and a navigation.
\<close>

datatype form_effect =
    Form_SetIndividualProjectDetailsData "ProjectValues option"
  | Form_SetCurrentStepFormStep string nat
  | Form_navigate string

definition ProjectDetailsForm_submission :: "string \<Rightarrow> ProjectValues option \<Rightarrow> form_effect list" where
  "ProjectDetailsForm_submission flag values =
     [Form_SetIndividualProjectDetailsData values,
      Form_SetCurrentStepFormStep flag 2,
      Form_navigate ''/upload-area'']"

text \<open>
  Modelled from the spec: the hook \<^verbatim>\<open>useForm\<close> (hooks/useForm) is missing from the
  sources; only its call \<^verbatim>\<open>useForm(projectDetails, submission, CreateProjectValidation)\<close>
  is there.  The spec says that validation helpers map a values object to a field-keyed
  error object, that submitting populates the field errors and that a validation error is
  blocking.  So \<^verbatim>\<open>handleSubmit\<close> validates the values, keeps the errors object as the
  form's \<^verbatim>\<open>errors\<close>, and runs the callback only when that object has no property.
  It returns the errors, what the callback did, and the validator's module state.
\<close>

definition handleSubmit ::
  "('v \<Rightarrow> ValidationErrors \<times> nat) \<Rightarrow> ('v \<Rightarrow> form_effect list) \<Rightarrow> 'v
     \<Rightarrow> ValidationErrors \<times> form_effect list \<times> nat" where
  "handleSubmit validate callback values =
     (let (errors, st) = validate values
      in (errors, (if errors = [] then callback values else []), st))"

section \<open>The project-creation store\<close>

text \<open>
  JavaScript values as far as the store and the request payloads need them.  An object is
  the list of its properties in insertion order; reading a property that is not there
  gives \<^verbatim>\<open>undefined\<close>.
\<close>

datatype jsval =
    JUndefined
  | JNull
  | JBool bool
  | JNum int
  | JStr string
  | JArr "jsval list"
  | JObj "(string \<times> jsval) list"

type_synonym obj = "(string \<times> jsval) list"

definition get_prop :: "obj \<Rightarrow> string \<Rightarrow> jsval" where
  "get_prop ob k = (case map_of ob k of None \<Rightarrow> JUndefined | Some v \<Rightarrow> v)"

text \<open>\<^verbatim>\<open>o?.k\<close> for an object that may be \<^verbatim>\<open>null\<close>.\<close>

definition opt_prop :: "obj option \<Rightarrow> string \<Rightarrow> jsval" where
  "opt_prop ob k = (case ob of None \<Rightarrow> JUndefined | Some ob' \<Rightarrow> get_prop ob' k)"



text \<open>
  The enum \<^verbatim>\<open>task_split_type\<close> (types/enums) is not among the sources; its three
  members are the ones the components name.
\<close>

datatype task_split_type = divide_on_square | choose_area_as_task | task_splitting_algorithm

text \<open>
  \<^verbatim>\<open>CreateProjectSlice.ts\<close>: the fields of \<^verbatim>\<open>CreateProjectStateTypes\<close> that the reducers
  below assign.  A field typed \<^verbatim>\<open>T | null\<close> is an option.
\<close>

record CreateProjectState =
  projectDetails :: obj
  projectDetailsResponse :: "obj option"
  projectArea :: "obj option"
  generateQrSuccess :: "obj option"
  generateProjectLogLoading :: bool
  generateProjectLog :: "obj option"
  dividedTaskLoading :: bool
  dividedTaskGeojson :: "obj option"
  taskSplittingGeojson :: "obj option"
  drawnGeojson :: "obj option"
  uploadAreaSelection :: string
  totalAreaSelection :: "string option"
  splitTasksSelection :: "task_split_type option"
  dataExtractGeojson :: "obj option"
  isUnsavedChanges :: bool
  canSwitchCreateProjectSteps :: bool
  isTasksGenerated :: obj
  toggleSplittedGeojsonEdit :: bool

definition initialState :: CreateProjectState where
  "initialState =
     \<lparr>projectDetails =
        [(''dimension'', JNum 10), (''no_of_buildings'', JNum 5), (''hashtags'', JStr []),
         (''name'', JStr []), (''short_description'', JStr []), (''odk_central_url'', JStr []),
         (''odk_central_user'', JStr []), (''odk_central_password'', JStr []),
         (''description'', JStr []), (''organisation_id'', JNull),
         (''per_task_instructions'', JStr [])],
      projectDetailsResponse = None,
      projectArea = None,
      generateQrSuccess = None,
      generateProjectLogLoading = False,
      generateProjectLog = None,
      dividedTaskLoading = False,
      dividedTaskGeojson = None,
      taskSplittingGeojson = None,
      drawnGeojson = None,
      uploadAreaSelection = [],
      totalAreaSelection = None,
      splitTasksSelection = None,
      dataExtractGeojson = None,
      isUnsavedChanges = False,
      canSwitchCreateProjectSteps = False,
      isTasksGenerated =
        [(''divide_on_square'', JBool False), (''task_splitting_algorithm'', JBool False)],
      toggleSplittedGeojsonEdit = False\<rparr>"

text \<open>The actions of the slice, each with its payload.\<close>

datatype CreateProjectAction =
    PostProjectDetails "obj option"
  | ClearCreateProjectFormData
  | SetIndividualProjectDetailsData obj
  | GenerateProjectQRSuccess obj
  | SetGenerateProjectQRSuccess "obj option"
  | GenerateProjectLogLoading bool
  | SetGenerateProjectLog "obj option"
  | GetDividedTaskFromGeojsonLoading bool
  | SetDividedTaskGeojson "obj option"
  | SetDrawnGeojson "obj option"
  | GetTaskSplittingPreview "obj option"
  | SetSplitTasksSelection "task_split_type option"
  | SetIsUnsavedChanges bool
  | SetCanSwitchCreateProjectSteps bool
  | SetIsTasksGenerated string bool
  | SetToggleSplittedGeojsonEdit bool

fun reducer :: "CreateProjectAction \<Rightarrow> CreateProjectState \<Rightarrow> CreateProjectState" where
  "reducer (PostProjectDetails payload) state = state\<lparr>projectDetailsResponse := payload\<rparr>"
| "reducer ClearCreateProjectFormData state =
     state\<lparr>projectDetails :=
             [(''dimension'', JNum 10), (''no_of_buildings'', JNum 5), (''hashtags'', JStr []),
              (''name'', JStr []), (''short_description'', JStr []),
              (''odk_central_url'', JStr []), (''odk_central_user'', JStr []),
              (''odk_central_password'', JStr []), (''description'', JStr []),
              (''organisation_id'', JNull)],
           projectArea := None,
           totalAreaSelection := None,
           splitTasksSelection := None,
           dataExtractGeojson := None,
           taskSplittingGeojson := None,
           drawnGeojson := None,
           generateProjectLog := None,
           generateProjectLogLoading := False,
           isUnsavedChanges := False,
           uploadAreaSelection := [],
           dividedTaskGeojson := None,
           dividedTaskLoading := False\<rparr>"
| "reducer (SetIndividualProjectDetailsData payload) state = state\<lparr>projectDetails := payload\<rparr>"
| "reducer (GenerateProjectQRSuccess payload) state =
     (if get_prop payload ''status'' = JStr ''SUCCESS''
      then state\<lparr>generateQrSuccess := None\<rparr>
      else state\<lparr>generateQrSuccess := Some payload\<rparr>)"
| "reducer (SetGenerateProjectQRSuccess payload) state = state\<lparr>generateQrSuccess := payload\<rparr>"
| "reducer (GenerateProjectLogLoading payload) state =
     state\<lparr>generateProjectLogLoading := payload\<rparr>"
| "reducer (SetGenerateProjectLog payload) state = state\<lparr>generateProjectLog := payload\<rparr>"
| "reducer (GetDividedTaskFromGeojsonLoading payload) state =
     state\<lparr>dividedTaskLoading := payload\<rparr>"
| "reducer (SetDividedTaskGeojson payload) state = state\<lparr>dividedTaskGeojson := payload\<rparr>"
| "reducer (SetDrawnGeojson payload) state = state\<lparr>drawnGeojson := payload\<rparr>"
| "reducer (GetTaskSplittingPreview payload) state =
     state\<lparr>dividedTaskGeojson := payload, taskSplittingGeojson := payload\<rparr>"
| "reducer (SetSplitTasksSelection payload) state = state\<lparr>splitTasksSelection := payload\<rparr>"
| "reducer (SetIsUnsavedChanges payload) state = state\<lparr>isUnsavedChanges := payload\<rparr>"
| "reducer (SetCanSwitchCreateProjectSteps payload) state =
     state\<lparr>canSwitchCreateProjectSteps := payload\<rparr>"
| "reducer (SetIsTasksGenerated key v) state =
     state\<lparr>isTasksGenerated := AList.update key (JBool v) (isTasksGenerated state)\<rparr>"
| "reducer (SetToggleSplittedGeojsonEdit payload) state =
     state\<lparr>toggleSplittedGeojsonEdit := payload\<rparr>"

section \<open>The SplitTasks component\<close>

text \<open>
  What the component does to the world outside the store, in the order it does it.
  A template literal is the list of its parts: text, an interpolated value, or an
  environment variable.  A \<^verbatim>\<open>File\<close> made from \<^verbatim>\<open>JSON.stringify(v)\<close> keeps \<open>v\<close>.
\<close>

datatype part = Lit string | Val jsval | Env string

datatype js_file = File jsval string string

datatype call =
    Dispatch CreateProjectAction
  | ClearInterval "nat option"
  | SetInterval nat nat
  | SetSnackBar bool "part list" string nat
  | GenerateProjectLog "part list" obj
  | CreateProjectService "part list" obj js_file jsval jsval bool
  | HandleCustomChange_task_split_type task_split_type
  | Navigate "part list"

fun is_ClearInterval :: "call \<Rightarrow> bool" where
  "is_ClearInterval (ClearInterval h) = True"
| "is_ClearInterval c = False"

fun truthy :: "jsval \<Rightarrow> bool" where
  "truthy JUndefined = False"
| "truthy JNull = False"
| "truthy (JBool b) = b"
| "truthy (JNum n) = (n \<noteq> 0)"
| "truthy (JStr s) = (s \<noteq> [])"
| "truthy (JArr xs) = True"
| "truthy (JObj ob) = True"

subsection \<open>The submission payload\<close>

text \<open>
  \<^verbatim>\<open>hashtags?.split('#').map((item) => item.trim()).filter(Boolean)\<close>.  Strings are lists
  of 8-bit characters here, so the white space that \<^verbatim>\<open>trim\<close> removes is tab, line feed,
  vertical tab, form feed, carriage return, space and no-break space.  A value that is
  neither a string nor missing has no \<^verbatim>\<open>split\<close>: the call throws a \<^verbatim>\<open>TypeError\<close>.
  The other error is the one a failed request throws.
\<close>

datatype js_error = TypeError | RequestError


definition is_space :: "char \<Rightarrow> bool" where
  "is_space c = (of_char c \<in> {9, 10, 11, 12, 13, 32, 160 :: nat})"







subsection \<open>The component, its timers and its effects\<close>

text \<open>
  The state around the SplitTasks instance (one at a time: the route renders a single
  one, and a second \<open>Mount\<close> below changes nothing): the store, whether it is mounted,
  the module-level variable \<^verbatim>\<open>generateProjectLogIntervalCb\<close>, the intervals that are
  active in the browser (identifier, delay in milliseconds and the payload that the
  callback captured), the next identifier \<^verbatim>\<open>setInterval\<close> hands out, the two pieces of
  local state, and the calls made so far.
\<close>

record world =
  store :: CreateProjectState
  mounted :: bool
  generateProjectLogIntervalCb :: "nat option"
  timers :: "(nat \<times> nat \<times> obj) list"
  next_timer :: nat
  toggleStatus :: bool
  taskGenerationStatus :: bool
  calls :: "call list"

definition init_world :: "CreateProjectState \<Rightarrow> world" where
  "init_world state =
     \<lparr>store = state, mounted = False, generateProjectLogIntervalCb = None, timers = [],
      next_timer = 1, toggleStatus = False, taskGenerationStatus = False, calls = []\<rparr>"

definition call :: "call \<Rightarrow> world \<Rightarrow> world" where
  "call c w = w\<lparr>calls := calls w @ [c]\<rparr>"

definition dispatch :: "CreateProjectAction \<Rightarrow> world \<Rightarrow> world" where
  "dispatch a w = w\<lparr>store := reducer a (store w), calls := calls w @ [Dispatch a]\<rparr>"

text \<open>
  \<^verbatim>\<open>clearInterval(h)\<close> stops the interval with identifier \<open>h\<close> if there is one, and does
  nothing for \<^verbatim>\<open>null\<close> or an identifier that is not active.  \<^verbatim>\<open>setInterval\<close> starts
  an interval under a new identifier and returns it.
\<close>

definition clearInterval :: "nat option \<Rightarrow> world \<Rightarrow> world" where
  "clearInterval h w =
     w\<lparr>timers := filter (\<lambda>t. Some (fst t) \<noteq> h) (timers w),
       calls := calls w @ [ClearInterval h]\<rparr>"

definition setInterval :: "obj \<Rightarrow> nat \<Rightarrow> world \<Rightarrow> nat \<times> world" where
  "setInterval payload delay w =
     (next_timer w,
      w\<lparr>timers := timers w @ [(next_timer w, delay, payload)],
        next_timer := Suc (next_timer w),
        calls := calls w @ [SetInterval (next_timer w) delay]\<rparr>)"

text \<open>
  The effects, each run with the store as the render saw it (\<open>snap\<close>).  The module
  variable is read when the effect runs.
\<close>

definition checkTasksGeneration :: "CreateProjectState \<Rightarrow> world \<Rightarrow> world" where
  "checkTasksGeneration snap w =
     (if \<not> truthy (get_prop (isTasksGenerated snap) ''divide_on_square'')
          \<and> splitTasksSelection snap = Some divide_on_square
      then w\<lparr>taskGenerationStatus := False\<rparr>
      else if \<not> truthy (get_prop (isTasksGenerated snap) ''task_splitting_algorithm'')
          \<and> splitTasksSelection snap = Some task_splitting_algorithm
      then w\<lparr>taskGenerationStatus := False\<rparr>
      else w\<lparr>taskGenerationStatus := True\<rparr>)"

definition selection_effect :: "CreateProjectState \<Rightarrow> world \<Rightarrow> world" where
  "selection_effect snap w =
     (if splitTasksSelection snap = Some choose_area_as_task
      then dispatch (SetDividedTaskGeojson None) w
      else w)"

definition log_request :: "CreateProjectState \<Rightarrow> obj" where
  "log_request snap =
     [(''project_id'', opt_prop (projectDetailsResponse snap) ''id''),
      (''uuid'', opt_prop (generateQrSuccess snap) ''task_id'')]"

definition qr_effect :: "CreateProjectState \<Rightarrow> world \<Rightarrow> world" where
  "qr_effect snap w =
     (if generateQrSuccess snap \<noteq> None
      then (if generateProjectLogIntervalCb w = None
            then (let w = call (GenerateProjectLog
                                  [Env ''VITE_API_URL'', Lit ''/projects/generate-log/'']
                                  (log_request snap)) w
                  in w\<lparr>toggleStatus := True\<rparr>)
            else w)
      else w)"

text \<open>
  The effect on \<^verbatim>\<open>[generateQrSuccess, generateProjectLog]\<close>.  \<^verbatim>\<open>environment.encode\<close> is
  the parameter \<open>encode\<close>.
\<close>

definition log_effect :: "(jsval \<Rightarrow> string) \<Rightarrow> CreateProjectState \<Rightarrow> world \<Rightarrow> world" where
  "log_effect encode snap w =
     (let status = opt_prop (generateProjectLog snap) ''status'';
          w = (if generateQrSuccess snap \<noteq> None \<and> status = JStr ''FAILED''
               then (let w = clearInterval (generateProjectLogIntervalCb w) w;
                         w = call (SetSnackBar True
                                     [Lit ''QR Generation Failed. '',
                                      Val (opt_prop (generateProjectLog snap) ''message'')]
                                     ''error'' 10000) w
                     in w)
               else if generateQrSuccess snap \<noteq> None \<and> status = JStr ''SUCCESS''
               then (let w = clearInterval (generateProjectLogIntervalCb w) w;
                         encodedProjectId = encode (opt_prop (projectDetailsResponse snap) ''id'');
                         w = call (SetSnackBar True [Lit ''QR Generation Completed.'']
                                     ''success'' 2000) w;
                         w = dispatch (SetGenerateProjectLog None) w;
                         w = dispatch (SetGenerateProjectQRSuccess None) w;
                         w = call (Navigate [Lit ''/project_details/'', Lit encodedProjectId]) w;
                         w = dispatch ClearCreateProjectFormData w;
                         w = dispatch (SetCanSwitchCreateProjectSteps False) w
                     in w)
               else w)
      in if generateQrSuccess snap \<noteq> None \<and> status = JStr ''PENDING''
         then (if generateProjectLogIntervalCb w = None
               then (let (i, w) = setInterval (log_request snap) 5000 w
                     in w\<lparr>generateProjectLogIntervalCb := Some i\<rparr>)
               else w)
         else w)"

text \<open>The cleanup of the effect with no dependencies, run when the component unmounts.\<close>

definition unmount_cleanup :: "world \<Rightarrow> world" where
  "unmount_cleanup w =
     (let w = clearInterval (generateProjectLogIntervalCb w) w;
          w = w\<lparr>generateProjectLogIntervalCb := None\<rparr>;
          w = dispatch (SetGenerateProjectLog None) w
      in w)"

text \<open>
  After a render, the effects whose dependencies changed run in the order of the source:
  \<^verbatim>\<open>[splitTasksSelection, isTasksGenerated]\<close>, \<^verbatim>\<open>[splitTasksSelection]\<close>,
  \<^verbatim>\<open>[generateQrSuccess]\<close>, \<^verbatim>\<open>[generateQrSuccess, generateProjectLog]\<close>.  The four flags
  say which of the four store fields changed.
\<close>

definition run_effects ::
  "(jsval \<Rightarrow> string) \<Rightarrow> bool \<Rightarrow> bool \<Rightarrow> bool \<Rightarrow> bool \<Rightarrow> CreateProjectState \<Rightarrow> world \<Rightarrow> world" where
  "run_effects encode sel gen qr lg snap w =
     (let w = (if sel \<or> gen then checkTasksGeneration snap w else w);
          w = (if sel then selection_effect snap w else w);
          w = (if qr then qr_effect snap w else w);
          w = (if qr \<or> lg then log_effect encode snap w else w)
      in w)"

text \<open>
  A store change renders the component; what the effects dispatch renders it once more.
  The effects of that second render dispatch nothing (lemma \<open>second_render_quiet\<close>
  below), so there is no third one.  The effects dispatch only \<^verbatim>\<open>null\<close> and constants
  into the four fields, so comparing values finds the changes of the first round.
\<close>

definition rerender ::
  "(jsval \<Rightarrow> string) \<Rightarrow> bool \<Rightarrow> bool \<Rightarrow> bool \<Rightarrow> bool \<Rightarrow> world \<Rightarrow> world" where
  "rerender encode sel gen qr lg w =
     (let snap = store w;
          w = run_effects encode sel gen qr lg snap w;
          snap' = store w
      in run_effects encode
           (splitTasksSelection snap' \<noteq> splitTasksSelection snap)
           (isTasksGenerated snap' \<noteq> isTasksGenerated snap)
           (generateQrSuccess snap' \<noteq> generateQrSuccess snap)
           (generateProjectLog snap' \<noteq> generateProjectLog snap)
           snap' w)"

text \<open>
  Which dependencies an action of the slice changes, from the store before and after it.
  \<^verbatim>\<open>splitTasksSelection\<close> is a number or \<^verbatim>\<open>null\<close> and is compared by value.  The other
  three hold objects: an action that assigns one of them stores a new object, which
  differs from the old one even when its content is the same, so the field has changed
  unless \<^verbatim>\<open>null\<close> replaced \<^verbatim>\<open>null\<close>.
\<close>

fun assigns_isTasksGenerated :: "CreateProjectAction \<Rightarrow> bool" where
  "assigns_isTasksGenerated (SetIsTasksGenerated k v) = True"
| "assigns_isTasksGenerated a = False"

fun assigns_generateQrSuccess :: "CreateProjectAction \<Rightarrow> bool" where
  "assigns_generateQrSuccess (GenerateProjectQRSuccess p) = True"
| "assigns_generateQrSuccess (SetGenerateProjectQRSuccess p) = True"
| "assigns_generateQrSuccess a = False"

fun assigns_generateProjectLog :: "CreateProjectAction \<Rightarrow> bool" where
  "assigns_generateProjectLog (SetGenerateProjectLog p) = True"
| "assigns_generateProjectLog ClearCreateProjectFormData = True"
| "assigns_generateProjectLog a = False"

definition render_after ::
  "(jsval \<Rightarrow> string) \<Rightarrow> CreateProjectAction \<Rightarrow> CreateProjectState \<Rightarrow> world \<Rightarrow> world" where
  "render_after encode a prev w =
     rerender encode
       (splitTasksSelection (store w) \<noteq> splitTasksSelection prev)
       (assigns_isTasksGenerated a)
       (assigns_generateQrSuccess a
          \<and> (generateQrSuccess prev \<noteq> None \<or> generateQrSuccess (store w) \<noteq> None))
       (assigns_generateProjectLog a
          \<and> (generateProjectLog prev \<noteq> None \<or> generateProjectLog (store w) \<noteq> None))
       w"

text \<open>
  What can happen to a SplitTasks instance: it mounts (every effect runs), it unmounts,
  some code dispatches an action of the slice (a response of the backend among them),
  an interval fires, or the user picks a split type in the radio group.
\<close>

datatype event =
    Mount
  | Unmount
  | StoreDispatch CreateProjectAction
  | TimerFires nat
  | SelectOption task_split_type

fun step :: "(jsval \<Rightarrow> string) \<Rightarrow> event \<Rightarrow> world \<Rightarrow> world" where
  "step encode Mount w =
     (if mounted w then w
      else rerender encode True True True True
             (w\<lparr>mounted := True, toggleStatus := False, taskGenerationStatus := False\<rparr>))"
| "step encode Unmount w =
     (if mounted w then (unmount_cleanup w)\<lparr>mounted := False\<rparr> else w)"
| "step encode (StoreDispatch a) w =
     (let prev = store w;
          w = w\<lparr>store := reducer a prev\<rparr>
      in if mounted w then render_after encode a prev w else w)"
| "step encode (TimerFires i) w =
     (case find (\<lambda>t. fst t = i) (timers w) of
        None \<Rightarrow> w
      | Some (i', delay, payload) \<Rightarrow>
          call (GenerateProjectLog [Env ''VITE_API_URL'', Lit ''/projects/generate-log/'']
                  payload) w)"
| "step encode (SelectOption v) w =
     (if mounted w
      then (let prev = store w;
                w = call (HandleCustomChange_task_split_type v) w;
                w = dispatch (SetSplitTasksSelection (Some v)) w;
                w = (if v = choose_area_as_task
                     then dispatch (SetIsTasksGenerated ''task_splitting_algorithm'' False)
                            (dispatch (SetIsTasksGenerated ''divide_on_square'' False) w)
                     else w)
            in rerender encode
                 (splitTasksSelection prev \<noteq> Some v) (v = choose_area_as_task) False False w)
      else w)"

definition run_events :: "(jsval \<Rightarrow> string) \<Rightarrow> event list \<Rightarrow> world \<Rightarrow> world" where
  "run_events encode evs w = foldl (\<lambda>w e. step encode e w) w evs"

definition clear_count :: "world \<Rightarrow> nat" where
  "clear_count w = length (filter is_ClearInterval (calls w))"

subsection \<open>Invariants of the polling\<close>

text \<open>
  Every interval that is active is the one \<^verbatim>\<open>generateProjectLogIntervalCb\<close> names and has
  the delay 5000, and there is at most one.
\<close>

definition tracked :: "world \<Rightarrow> bool" where
  "tracked w \<longleftrightarrow>
     length (timers w) \<le> 1
     \<and> (\<forall>t \<in> set (timers w). generateProjectLogIntervalCb w = Some (fst t) \<and> fst (snd t) = 5000)"

text \<open>Moreover, while the component is not mounted no interval is active and the variable is \<^verbatim>\<open>null\<close>.\<close>

definition settled :: "world \<Rightarrow> bool" where
  "settled w \<longleftrightarrow> tracked w \<and> (mounted w \<or> timers w = [] \<and> generateProjectLogIntervalCb w = None)"

text \<open>
  The store shows a finished QR task: the task is set and the status of the log is
  \<^verbatim>\<open>SUCCESS\<close> or \<^verbatim>\<open>FAILED\<close>.  In a finished world no interval is active then.
\<close>

definition terminal :: "CreateProjectState \<Rightarrow> bool" where
  "terminal state \<longleftrightarrow>
     generateQrSuccess state \<noteq> None
     \<and> (opt_prop (generateProjectLog state) ''status'' = JStr ''SUCCESS''
        \<or> opt_prop (generateProjectLog state) ''status'' = JStr ''FAILED'')"

definition finished :: "world \<Rightarrow> bool" where
  "finished w \<longleftrightarrow> \<not> terminal (store w) \<or> timers w = []"

text \<open>The condition of the \<^verbatim>\<open>SUCCESS\<close> branch, and the effects that run before the last one.\<close>

definition success_cond :: "CreateProjectState \<Rightarrow> bool" where
  "success_cond snap \<longleftrightarrow>
     generateQrSuccess snap \<noteq> None \<and> opt_prop (generateProjectLog snap) ''status'' = JStr ''SUCCESS''"

definition pre_log :: "bool \<Rightarrow> bool \<Rightarrow> bool \<Rightarrow> CreateProjectState \<Rightarrow> world \<Rightarrow> world" where
  "pre_log sel gen qr snap w =
     (let w = (if sel \<or> gen then checkTasksGeneration snap w else w);
          w = (if sel then selection_effect snap w else w);
          w = (if qr then qr_effect snap w else w)
      in w)"

subsection \<open>Concrete runs\<close>

text \<open>
  A mounted component with a split preview in the store and a QR task started, before
  the first log has arrived; the same after a first log with status \<^verbatim>\<open>PENDING\<close>; and
  after a tick and a second log with status \<^verbatim>\<open>FAILED\<close>.
\<close>

definition example_qr :: obj where
  "example_qr = [(''Message'', JStr ''started''), (''task_id'', JStr ''t1'')]"

definition example_log :: "string \<Rightarrow> obj" where
  "example_log st =
     [(''status'', JStr st), (''message'', JNull), (''progress'', JNum 1), (''logs'', JStr [])]"

definition example_events :: "event list" where
  "example_events =
     [Mount,
      StoreDispatch (GetTaskSplittingPreview (Some [(''type'', JStr ''FeatureCollection'')])),
      StoreDispatch (GenerateProjectQRSuccess example_qr)]"

definition example_idle :: world where
  "example_idle = run_events (\<lambda>v. ''p1'') example_events (init_world initialState)"


definition example_polling :: world where
  "example_polling =
     run_events (\<lambda>v. ''p1'')
       (example_events @ [StoreDispatch (SetGenerateProjectLog (Some (example_log ''PENDING'')))])
       (init_world initialState)"



definition example_stale :: world where
  "example_stale =
     run_events (\<lambda>v. ''p1'')
       [Mount,
        StoreDispatch (GenerateProjectQRSuccess example_qr),
        StoreDispatch (SetGenerateProjectLog (Some (example_log ''PENDING''))),
        TimerFires 1,
        TimerFires 1,
        StoreDispatch (SetGenerateProjectLog (Some (example_log ''FAILED''))),
        StoreDispatch (SetGenerateProjectLog (Some (example_log ''PENDING'')))]
       (init_world initialState)"

section \<open>The project API layer\<close>

text \<open>
  \<^verbatim>\<open>api/Project.js\<close>.  Each action creator is the list of what it dispatches and of the
  downloads it triggers, in order, given the outcome of every request: \<open>axios\<close> maps the
  URL of a \<^verbatim>\<open>CoreModules.axios.get\<close> to the error it throws or to its response.  The
  actions are those of \<^verbatim>\<open>ProjectSlice\<close> that the file dispatches.
\<close>

record response =
  data :: jsval
  headers :: "(string \<times> string) list"

type_synonym axios = "part list \<Rightarrow> js_error + response"

datatype ProjectAction =
    SetProjectDetialsLoading bool
  | SetProjectTaskBoundries jsval
  | SetProjectInfo obj
  | SetNewProjectTrigger
  | SetDownloadProjectFormLoading jsval bool
  | SetDownloadDataExtractLoading bool
  | SetTilesListLoading bool
  | SetTilesList jsval
  | SetGenerateProjectTilesLoading bool
  | SetDownloadTileLoading jsval bool
  | SetProjectDashboardLoading bool
  | SetProjectDashboardDetail jsval

text \<open>
  \<open>Click b name\<close> is the click on the anchor whose \<^verbatim>\<open>href\<close> is an object URL of the blob
  \<open>b\<close> and whose \<^verbatim>\<open>download\<close> is \<open>name\<close>.
\<close>

datatype api_effect =
    Dispatched ProjectAction
  | Click jsval "part list"

text \<open>
  \<^verbatim>\<open>try { body } catch (error) { handler } finally { fin }\<close>, for handlers and final
  blocks that only dispatch.  The body is what it did before it returned or threw, and
  the error if it threw.
\<close>

definition try_catch_finally ::
  "api_effect list \<times> js_error option \<Rightarrow> (js_error \<Rightarrow> api_effect list) \<Rightarrow> api_effect list
     \<Rightarrow> api_effect list" where
  "try_catch_finally body handler fin =
     fst body @ (case snd body of None \<Rightarrow> [] | Some e \<Rightarrow> handler e) @ fin"

subsection \<open>Reading values\<close>

text \<open>
  \<^verbatim>\<open>v.k\<close>: a \<^verbatim>\<open>TypeError\<close> on \<^verbatim>\<open>undefined\<close> and \<^verbatim>\<open>null\<close>, the property of an object,
  and \<^verbatim>\<open>undefined\<close> on every other value (none of the names read here is a property
  of an array, a string, a number or a boolean).
\<close>

fun member :: "jsval \<Rightarrow> string \<Rightarrow> js_error + jsval" where
  "member JUndefined k = Inl TypeError"
| "member JNull k = Inl TypeError"
| "member (JObj ob) k = Inr (get_prop ob k)"
| "member v k = Inr JUndefined"

text \<open>\<^verbatim>\<open>v?.k\<close>.\<close>

fun opt_member :: "jsval \<Rightarrow> string \<Rightarrow> jsval" where
  "opt_member (JObj ob) k = get_prop ob k"
| "opt_member v k = JUndefined"

text \<open>\<^verbatim>\<open>v[0]\<close>.\<close>

fun index0 :: "jsval \<Rightarrow> js_error + jsval" where
  "index0 JUndefined = Inl TypeError"
| "index0 JNull = Inl TypeError"
| "index0 (JArr xs) = Inr (case xs of [] \<Rightarrow> JUndefined | x # xs' \<Rightarrow> x)"
| "index0 (JStr s) = Inr (case s of [] \<Rightarrow> JUndefined | c # s' \<Rightarrow> JStr [c])"
| "index0 (JObj ob) = Inr (get_prop ob ''0'')"
| "index0 v = Inr JUndefined"

text \<open>\<^verbatim>\<open>a || b\<close>.\<close>

definition js_or :: "jsval \<Rightarrow> jsval \<Rightarrow> jsval" where
  "js_or a b = (if truthy a then a else b)"

text \<open>
  \<^verbatim>\<open>a === b\<close> on values that come out of two parsed responses: an array or an object is
  never identical to another one, everything else is compared by value.
\<close>

fun strict_eq :: "jsval \<Rightarrow> jsval \<Rightarrow> bool" where
  "strict_eq (JArr xs) b = False"
| "strict_eq (JObj ob) b = False"
| "strict_eq a b = (a = b)"

text \<open>\<^verbatim>\<open>xs.map(f)\<close> for an \<open>f\<close> that may throw: the first error ends the loop.\<close>

fun map_r :: "('a \<Rightarrow> js_error + 'b) \<Rightarrow> 'a list \<Rightarrow> js_error + 'b list" where
  "map_r f [] = Inr []"
| "map_r f (x # xs) =
     (case f x of
        Inl e \<Rightarrow> Inl e
      | Inr y \<Rightarrow> (case map_r f xs of Inl e \<Rightarrow> Inl e | Inr ys \<Rightarrow> Inr (y # ys)))"

text \<open>\<^verbatim>\<open>xs.find((task) => task.id === v)\<close>: reading \<^verbatim>\<open>task.id\<close> may throw.\<close>

fun find_by_id :: "jsval \<Rightarrow> jsval list \<Rightarrow> js_error + jsval" where
  "find_by_id v [] = Inr JUndefined"
| "find_by_id v (task # tasks) =
     (case member task ''id'' of
        Inl e \<Rightarrow> Inl e
      | Inr i \<Rightarrow> (if strict_eq i v then Inr task else find_by_id v tasks))"

text \<open>A method of arrays called on a value: a \<^verbatim>\<open>TypeError\<close> unless the value is an array.\<close>

fun as_array :: "jsval \<Rightarrow> js_error + jsval list" where
  "as_array (JArr xs) = Inr xs"
| "as_array v = Inl TypeError"

text \<open>
  \<^verbatim>\<open>s.split(sep)\<close> for a separator that is not empty; \<open>acc\<close> is the piece being read, in
  reverse.
\<close>

function split_sub :: "string \<Rightarrow> string \<Rightarrow> string \<Rightarrow> string list" where
  "split_sub sep [] acc = [rev acc]"
| "split_sub sep (c # cs) acc =
     (if sep \<noteq> [] \<and> take (length sep) (c # cs) = sep
      then rev acc # split_sub sep (drop (length sep) (c # cs)) []
      else split_sub sep cs (c # acc))"
  by pat_completeness auto
termination
  by (relation "measure (\<lambda>(sep, s, acc). length s)") auto

subsection \<open>The action creators\<close>

text \<open>
  \<^verbatim>\<open>ProjectById\<close>.  The table \<^verbatim>\<open>task_priority_str\<close> (types/enums) is a parameter.
  Once \<^verbatim>\<open>data.id\<close> has been read, \<^verbatim>\<open>data\<close> is neither \<^verbatim>\<open>undefined\<close> nor \<^verbatim>\<open>null\<close>,
  so the reads of its other properties cannot throw and are written with \<open>opt_member\<close>;
  likewise for \<^verbatim>\<open>projectResp\<close> in \<open>projectInfo\<close>, which is built after
  \<^verbatim>\<open>projectResp.id\<close> has been read.
\<close>

definition persistingValue :: "(jsval \<Rightarrow> jsval) \<Rightarrow> jsval \<Rightarrow> js_error + obj" where
  "persistingValue task_priority_str d =
     (case member d ''id'' of
        Inl e \<Rightarrow> Inl e
      | Inr i \<Rightarrow>
          Inr [(''id'', i),
               (''outline_geojson'', opt_member d ''outline_geojson''),
               (''outline_centroid'', opt_member d ''outline_centroid''),
               (''task_status'', task_priority_str (opt_member d ''task_status'')),
               (''locked_by_uid'', opt_member d ''locked_by_uid''),
               (''locked_by_username'', opt_member d ''locked_by_username''),
               (''task_history'', opt_member d ''task_history''),
               (''odk_token'', opt_member d ''odk_token'')])"

definition mergeBbox :: "jsval \<Rightarrow> obj \<Rightarrow> js_error + obj" where
  "mergeBbox bboxData projectTask =
     (case as_array bboxData of
        Inl e \<Rightarrow> Inl e
      | Inr tasks \<Rightarrow>
          (case find_by_id (get_prop projectTask ''id'') tasks of
             Inl e \<Rightarrow> Inl e
           | Inr found \<Rightarrow>
               (case member found ''point'' of
                  Inl e \<Rightarrow> Inl e
                | Inr point \<Rightarrow>
                    (case index0 point of
                       Inl e \<Rightarrow> Inl e
                     | Inr centroid \<Rightarrow> Inr (AList.update ''bbox'' centroid projectTask)))))"

definition projectInfo :: "jsval \<Rightarrow> obj" where
  "projectInfo projectResp =
     [(''id'', opt_member projectResp ''id''),
      (''outline_geojson'', opt_member projectResp ''outline_geojson''),
      (''priority'', js_or (opt_member projectResp ''priority'') (JNum 2)),
      (''priority_str'', js_or (opt_member projectResp ''priority_str'') (JStr ''MEDIUM'')),
      (''title'', opt_member (opt_member projectResp ''project_info'') ''name''),
      (''location_str'', opt_member projectResp ''location_str''),
      (''description'', opt_member (opt_member projectResp ''project_info'') ''description''),
      (''short_description'',
         opt_member (opt_member projectResp ''project_info'') ''short_description''),
      (''num_contributors'', opt_member projectResp ''num_contributors''),
      (''total_tasks'', opt_member projectResp ''total_tasks''),
      (''tasks_mapped'', opt_member projectResp ''tasks_mapped''),
      (''tasks_validated'', opt_member projectResp ''tasks_validated''),
      (''xform_title'', opt_member projectResp ''xform_title''),
      (''tasks_bad'', opt_member projectResp ''tasks_bad''),
      (''data_extract_url'', opt_member projectResp ''data_extract_url'')]"

text \<open>
  The part of the \<^verbatim>\<open>try\<close> block after the three requests: it throws or gives the two
  payloads.  \<^verbatim>\<open>projectResp.id\<close> is read after \<^verbatim>\<open>taskListResp.map\<close> has run.
\<close>

definition projectPayloads :: "(jsval \<Rightarrow> jsval) \<Rightarrow> jsval \<Rightarrow> jsval \<Rightarrow> jsval \<Rightarrow> js_error + jsval \<times> obj" where
  "projectPayloads task_priority_str projectResp taskListResp bboxData =
     (case as_array taskListResp of
        Inl e \<Rightarrow> Inl e
      | Inr ds \<Rightarrow>
          (case map_r (persistingValue task_priority_str) ds of
             Inl e \<Rightarrow> Inl e
           | Inr persistingValues \<Rightarrow>
               (case member projectResp ''id'' of
                  Inl e \<Rightarrow> Inl e
                | Inr i \<Rightarrow>
                    (case map_r (mergeBbox bboxData) persistingValues of
                       Inl e \<Rightarrow> Inl e
                     | Inr mergedBboxIntoTask \<Rightarrow>
                         Inr (JArr [JObj [(''id'', i),
                                          (''taskBoundries'', JArr (map JObj mergedBboxIntoTask))]],
                              projectInfo projectResp)))))"

definition fetchProjectById ::
  "(jsval \<Rightarrow> jsval) \<Rightarrow> axios \<Rightarrow> jsval \<Rightarrow> api_effect list \<times> js_error option" where
  "fetchProjectById task_priority_str axios projectId =
     (let started = [Dispatched (SetProjectDetialsLoading True)]
      in case axios [Env ''VITE_API_URL'', Lit ''/projects/'', Val projectId] of
           Inl e \<Rightarrow> (started, Some e)
         | Inr project \<Rightarrow>
        (case axios [Env ''VITE_API_URL'', Lit ''/tasks/task-list?project_id='', Val projectId] of
           Inl e \<Rightarrow> (started, Some e)
         | Inr taskList \<Rightarrow>
        (case axios [Env ''VITE_API_URL'', Lit ''/tasks/point_on_surface?project_id='',
                     Val projectId] of
           Inl e \<Rightarrow> (started, Some e)
         | Inr taskBbox \<Rightarrow>
        (case projectPayloads task_priority_str (data project) (data taskList) (data taskBbox) of
           Inl e \<Rightarrow> (started, Some e)
         | Inr (boundaries, info) \<Rightarrow>
             (started @
              [Dispatched (SetProjectTaskBoundries boundaries),
               Dispatched (SetProjectInfo info),
               Dispatched (SetProjectDetialsLoading False)], None)))))"

definition ProjectById :: "(jsval \<Rightarrow> jsval) \<Rightarrow> axios \<Rightarrow> jsval \<Rightarrow> jsval \<Rightarrow> api_effect list" where
  "ProjectById task_priority_str axios existingProjectList projectId =
     try_catch_finally (fetchProjectById task_priority_str axios projectId) (\<lambda>error. []) []
     @ [Dispatched SetNewProjectTrigger]"

definition DownloadProjectForm :: "axios \<Rightarrow> part list \<Rightarrow> jsval \<Rightarrow> jsval \<Rightarrow> api_effect list" where
  "DownloadProjectForm axios url payload projectId =
     [Dispatched (SetDownloadProjectFormLoading payload True)]
     @ try_catch_finally
         (case axios url of
            Inl e \<Rightarrow> ([], Some e)
          | Inr response \<Rightarrow>
              ([Click (data response)
                  (if payload = JStr ''form''
                   then [Lit ''project_form_'', Val projectId, Lit ''.xls'']
                   else [Lit ''task_polygons_'', Val projectId, Lit ''.geojson'']),
                Dispatched (SetDownloadProjectFormLoading payload False)], None))
         (\<lambda>error. [Dispatched (SetDownloadProjectFormLoading payload False)])
         [Dispatched (SetDownloadProjectFormLoading payload False)]"

definition DownloadDataExtract :: "axios \<Rightarrow> part list \<Rightarrow> jsval \<Rightarrow> api_effect list" where
  "DownloadDataExtract axios url payload =
     [Dispatched (SetDownloadDataExtractLoading True)]
     @ try_catch_finally
         (case axios url of
            Inl e \<Rightarrow> ([], Some e)
          | Inr response \<Rightarrow>
              ([Click (data response) [Lit ''Data_Extract.geojson''],
                Dispatched (SetDownloadDataExtractLoading False)], None))
         (\<lambda>error. [Dispatched (SetDownloadDataExtractLoading False)])
         [Dispatched (SetDownloadDataExtractLoading False)]"

text \<open>
  \<^verbatim>\<open>GetTilesList\<close> in two parts: up to its \<^verbatim>\<open>await\<close>, and from the answer on.  A caller
  that dispatches it without awaiting runs between the two.
\<close>

definition GetTilesList_start :: "api_effect list" where
  "GetTilesList_start = [Dispatched (SetTilesListLoading True)]"

definition GetTilesList_rest :: "axios \<Rightarrow> part list \<Rightarrow> api_effect list" where
  "GetTilesList_rest axios url =
     try_catch_finally
       (case axios url of
          Inl e \<Rightarrow> ([], Some e)
        | Inr response \<Rightarrow>
            ([Dispatched (SetTilesList (data response)),
              Dispatched (SetTilesListLoading False)], None))
       (\<lambda>error. [Dispatched (SetTilesListLoading False)])
       [Dispatched (SetTilesListLoading False)]"

definition GetTilesList :: "axios \<Rightarrow> part list \<Rightarrow> api_effect list" where
  "GetTilesList axios url = GetTilesList_start @ GetTilesList_rest axios url"

definition GenerateProjectTiles :: "axios \<Rightarrow> part list \<Rightarrow> jsval \<Rightarrow> api_effect list" where
  "GenerateProjectTiles axios url payload =
     [Dispatched (SetGenerateProjectTilesLoading True)]
     @ try_catch_finally
         (case axios url of
            Inl e \<Rightarrow> ([], Some e)
          | Inr response \<Rightarrow>
              (GetTilesList_start @ [Dispatched (SetGenerateProjectTilesLoading False)], None))
         (\<lambda>error. [Dispatched (SetGenerateProjectTilesLoading False)])
         [Dispatched (SetGenerateProjectTilesLoading False)]
     @ (case axios url of
          Inl e \<Rightarrow> []
        | Inr response \<Rightarrow>
            GetTilesList_rest axios
              [Env ''VITE_API_URL'', Lit ''/projects/tiles_list/'', Val payload, Lit ''/''])"

text \<open>
  \<^verbatim>\<open>DownloadTile\<close>: the file name is the second piece of the header
  \<^verbatim>\<open>content-disposition\<close> split at \<^verbatim>\<open>filename=\<close>; a response without the header throws
  a \<^verbatim>\<open>TypeError\<close>, a header without \<^verbatim>\<open>filename=\<close> gives \<^verbatim>\<open>undefined\<close>.
\<close>

definition DownloadTile :: "axios \<Rightarrow> part list \<Rightarrow> jsval \<Rightarrow> api_effect list" where
  "DownloadTile axios url payload =
     [Dispatched (SetDownloadTileLoading payload True)]
     @ try_catch_finally
         (case axios url of
            Inl e \<Rightarrow> ([], Some e)
          | Inr response \<Rightarrow>
              (case map_of (headers response) ''content-disposition'' of
                 None \<Rightarrow> ([], Some TypeError)
               | Some h \<Rightarrow>
                   ([Click (data response)
                       [Val (case split_sub ''filename='' h [] of
                               a # filename # pieces \<Rightarrow> JStr filename
                             | pieces \<Rightarrow> JUndefined)],
                     Dispatched (SetDownloadTileLoading payload False)], None)))
         (\<lambda>error. [Dispatched (SetDownloadTileLoading payload False)])
         [Dispatched (SetDownloadTileLoading payload False)]"

definition GetProjectDashboard :: "axios \<Rightarrow> part list \<Rightarrow> api_effect list" where
  "GetProjectDashboard axios url =
     try_catch_finally
       (case axios url of
          Inl e \<Rightarrow> ([Dispatched (SetProjectDashboardLoading True)], Some e)
        | Inr response \<Rightarrow>
            ([Dispatched (SetProjectDashboardLoading True),
              Dispatched (SetProjectDashboardDetail (data response)),
              Dispatched (SetProjectDashboardLoading False)], None))
       (\<lambda>error. [Dispatched (SetProjectDashboardLoading False)])
       [Dispatched (SetProjectDashboardLoading False)]"

text \<open>
  The actions dispatched, in order; and the values a loading flag is set to, in order,
  whichever flag it is.
\<close>

fun dispatched :: "api_effect list \<Rightarrow> ProjectAction list" where
  "dispatched [] = []"
| "dispatched (Dispatched a # es) = a # dispatched es"
| "dispatched (Click b n # es) = dispatched es"


fun loading_value :: "api_effect \<Rightarrow> bool option" where
  "loading_value (Dispatched (SetProjectDetialsLoading b)) = Some b"
| "loading_value (Dispatched (SetDownloadProjectFormLoading t b)) = Some b"
| "loading_value (Dispatched (SetDownloadDataExtractLoading b)) = Some b"
| "loading_value (Dispatched (SetTilesListLoading b)) = Some b"
| "loading_value (Dispatched (SetGenerateProjectTilesLoading b)) = Some b"
| "loading_value (Dispatched (SetDownloadTileLoading t b)) = Some b"
| "loading_value (Dispatched (SetProjectDashboardLoading b)) = Some b"
| "loading_value e = None"

definition loading_flags :: "api_effect list \<Rightarrow> bool list" where
  "loading_flags es = List.map_filter loading_value es"

text \<open>Two outcomes of a request: it throws, or it answers with a blob and a file name.\<close>

definition axios_throws :: axios where
  "axios_throws url = Inl RequestError"

definition axios_blob :: axios where
  "axios_blob url =
     Inr \<lparr>data = JStr ''blob'',
          headers = [(''content-disposition'', ''attachment; filename=tiles.mbtiles'')]\<rparr>"

section \<open>The map adapter: VectorLayer\<close>

text \<open>
  The component \<^verbatim>\<open>VectorLayer\<close> and its two effects that register interactions.  A map,
  a layer, a callback and an interaction object are known by their identity, a number.
  The prop \<^verbatim>\<open>map\<close> is written \<open>map_prop\<close>; a prop or the state \<^verbatim>\<open>vectorLayer\<close> is \<open>None\<close>
  when it is \<^verbatim>\<open>undefined\<close> or \<^verbatim>\<open>null\<close>.  By \<^verbatim>\<open>defaultProps\<close>, \<^verbatim>\<open>onModify\<close> is \<^verbatim>\<open>null\<close> when
  it is not passed; \<^verbatim>\<open>onDraw\<close> has no default and is \<^verbatim>\<open>undefined\<close> then.
\<close>

datatype interaction = Modify | Select | Draw

record VectorLayer_props =
  map_prop :: "nat option"
  onModify :: "nat option"
  onDraw :: "nat option"

text \<open>
  An instance: the props and the \<^verbatim>\<open>vectorLayer\<close> state of its last render (\<open>None\<close> while
  it is not mounted), what the cleanup of each of the two effects has captured (the map
  and the interaction objects; \<open>None\<close> when the effect returned early), the interactions
  registered with the maps (map, kind, object), and the next object identity.
\<close>

record VectorLayer =
  rendered :: "(VectorLayer_props \<times> nat option) option"
  modify_cleanup :: "(nat \<times> nat \<times> nat) option"
  draw_cleanup :: "(nat \<times> nat) option"
  interactions :: "(nat \<times> interaction \<times> nat) list"
  next_object :: nat

definition VectorLayer_init :: VectorLayer where
  "VectorLayer_init =
     \<lparr>rendered = None, modify_cleanup = None, draw_cleanup = None, interactions = [],
      next_object = 0\<rparr>"

definition addInteraction :: "nat \<Rightarrow> interaction \<Rightarrow> nat \<Rightarrow> VectorLayer \<Rightarrow> VectorLayer" where
  "addInteraction m k i v = v\<lparr>interactions := interactions v @ [(m, k, i)]\<rparr>"

definition removeInteraction :: "nat \<Rightarrow> interaction \<Rightarrow> nat \<Rightarrow> VectorLayer \<Rightarrow> VectorLayer" where
  "removeInteraction m k i v = v\<lparr>interactions := filter (\<lambda>x. x \<noteq> (m, k, i)) (interactions v)\<rparr>"

text \<open>The effect on \<^verbatim>\<open>[map, vectorLayer, onModify]\<close> and its cleanup.\<close>

definition modify_effect :: "VectorLayer_props \<Rightarrow> nat option \<Rightarrow> VectorLayer \<Rightarrow> VectorLayer" where
  "modify_effect p vectorLayer v =
     (case map_prop p of
        None \<Rightarrow> v\<lparr>modify_cleanup := None\<rparr>
      | Some m \<Rightarrow>
     (case vectorLayer of
        None \<Rightarrow> v\<lparr>modify_cleanup := None\<rparr>
      | Some layer \<Rightarrow>
     (case onModify p of
        None \<Rightarrow> v\<lparr>modify_cleanup := None\<rparr>
      | Some callback \<Rightarrow>
          (let select = next_object v;
               modify = Suc (next_object v);
               v = v\<lparr>next_object := Suc (Suc (next_object v))\<rparr>;
               v = addInteraction m Modify modify v;
               v = addInteraction m Select select v
           in v\<lparr>modify_cleanup := Some (m, modify, select)\<rparr>))))"

definition modify_effect_cleanup :: "VectorLayer \<Rightarrow> VectorLayer" where
  "modify_effect_cleanup v =
     (case modify_cleanup v of
        None \<Rightarrow> v
      | Some (m, modify, select) \<Rightarrow>
          (let v = removeInteraction m Modify modify v;
               v = removeInteraction m Select select v
           in v\<lparr>modify_cleanup := None\<rparr>))"

text \<open>The effect on \<^verbatim>\<open>[map, vectorLayer, onDraw]\<close> and its cleanup.\<close>

definition draw_effect :: "VectorLayer_props \<Rightarrow> VectorLayer \<Rightarrow> VectorLayer" where
  "draw_effect p v =
     (case map_prop p of
        None \<Rightarrow> v\<lparr>draw_cleanup := None\<rparr>
      | Some m \<Rightarrow>
     (case onDraw p of
        None \<Rightarrow> v\<lparr>draw_cleanup := None\<rparr>
      | Some callback \<Rightarrow>
          (let draw = next_object v;
               v = v\<lparr>next_object := Suc (next_object v)\<rparr>;
               v = addInteraction m Draw draw v
           in v\<lparr>draw_cleanup := Some (m, draw)\<rparr>)))"

definition draw_effect_cleanup :: "VectorLayer \<Rightarrow> VectorLayer" where
  "draw_effect_cleanup v =
     (case draw_cleanup v of
        None \<Rightarrow> v
      | Some (m, draw) \<Rightarrow> (removeInteraction m Draw draw v)\<lparr>draw_cleanup := None\<rparr>)"

text \<open>
  A render with new props and a new \<^verbatim>\<open>vectorLayer\<close> state: of the effects whose
  dependencies changed (all of them on the first render) the cleanups run, then the
  effects.  Unmounting runs the cleanups.
\<close>

datatype VectorLayer_event = Render VectorLayer_props "nat option" | Unmounted

definition modify_deps_changed :: "VectorLayer_props \<Rightarrow> nat option \<Rightarrow> VectorLayer \<Rightarrow> bool" where
  "modify_deps_changed p vectorLayer v =
     (case rendered v of
        None \<Rightarrow> True
      | Some (p', vectorLayer') \<Rightarrow>
          (map_prop p', vectorLayer', onModify p') \<noteq> (map_prop p, vectorLayer, onModify p))"

definition draw_deps_changed :: "VectorLayer_props \<Rightarrow> nat option \<Rightarrow> VectorLayer \<Rightarrow> bool" where
  "draw_deps_changed p vectorLayer v =
     (case rendered v of
        None \<Rightarrow> True
      | Some (p', vectorLayer') \<Rightarrow>
          (map_prop p', vectorLayer', onDraw p') \<noteq> (map_prop p, vectorLayer, onDraw p))"

fun VectorLayer_step :: "VectorLayer_event \<Rightarrow> VectorLayer \<Rightarrow> VectorLayer" where
  "VectorLayer_step (Render p vectorLayer) v =
     (let md = modify_deps_changed p vectorLayer v;
          dd = draw_deps_changed p vectorLayer v;
          v = (if md then modify_effect_cleanup v else v);
          v = (if dd then draw_effect_cleanup v else v);
          v = (if md then modify_effect p vectorLayer v else v);
          v = (if dd then draw_effect p v else v)
      in v\<lparr>rendered := Some (p, vectorLayer)\<rparr>)"
| "VectorLayer_step Unmounted v =
     (let v = modify_effect_cleanup v;
          v = draw_effect_cleanup v
      in v\<lparr>rendered := None\<rparr>)"

definition VectorLayer_run :: "VectorLayer_event list \<Rightarrow> VectorLayer" where
  "VectorLayer_run evs = foldl (\<lambda>v e. VectorLayer_step e v) VectorLayer_init evs"

text \<open>An interaction of kind \<open>k\<close> is registered with the map \<open>m\<close>.\<close>

definition registered :: "interaction \<Rightarrow> nat \<Rightarrow> VectorLayer \<Rightarrow> bool" where
  "registered k m v = list_ex (\<lambda>x. fst x = m \<and> fst (snd x) = k) (interactions v)"

text \<open>What the last render asks for: the conditions under which the effects do not return early.\<close>

definition wants_modify :: "nat \<Rightarrow> VectorLayer \<Rightarrow> bool" where
  "wants_modify m v =
     (case rendered v of
        None \<Rightarrow> False
      | Some (p, vectorLayer) \<Rightarrow>
          map_prop p = Some m \<and> vectorLayer \<noteq> None \<and> onModify p \<noteq> None)"

definition wants_draw :: "nat \<Rightarrow> VectorLayer \<Rightarrow> bool" where
  "wants_draw m v =
     (case rendered v of
        None \<Rightarrow> False
      | Some (p, vectorLayer) \<Rightarrow> map_prop p = Some m \<and> onDraw p \<noteq> None)"

text \<open>
  The interactions split into those of the modify effect and those of the draw effect.
  Each part is what the cleanup of its effect holds.
\<close>

definition modify_part :: "VectorLayer \<Rightarrow> (nat \<times> interaction \<times> nat) set" where
  "modify_part v = {x \<in> set (interactions v). fst (snd x) \<noteq> Draw}"

definition draw_part :: "VectorLayer \<Rightarrow> (nat \<times> interaction \<times> nat) set" where
  "draw_part v = {x \<in> set (interactions v). fst (snd x) = Draw}"

definition modify_ok :: "VectorLayer \<Rightarrow> bool" where
  "modify_ok v \<longleftrightarrow>
     modify_part v =
       (case modify_cleanup v of
          None \<Rightarrow> {}
        | Some (m, modify, select) \<Rightarrow> {(m, Modify, modify), (m, Select, select)})"

definition draw_ok :: "VectorLayer \<Rightarrow> bool" where
  "draw_ok v \<longleftrightarrow>
     draw_part v = (case draw_cleanup v of None \<Rightarrow> {} | Some (m, draw) \<Rightarrow> {(m, Draw, draw)})"

text \<open>
  The invariant of each effect for given values of its dependencies: its part of the
  interactions is what its cleanup holds, and the cleanup holds something exactly when
  the effect did not return early.
\<close>

definition modify_for :: "nat option \<Rightarrow> nat option \<Rightarrow> nat option \<Rightarrow> VectorLayer \<Rightarrow> bool" where
  "modify_for mp l cb v \<longleftrightarrow>
     modify_ok v
     \<and> (case modify_cleanup v of
           None \<Rightarrow> mp = None \<or> l = None \<or> cb = None
         | Some (m, modify, select) \<Rightarrow> mp = Some m \<and> l \<noteq> None \<and> cb \<noteq> None)"

definition draw_for :: "nat option \<Rightarrow> nat option \<Rightarrow> VectorLayer \<Rightarrow> bool" where
  "draw_for mp cb v \<longleftrightarrow>
     draw_ok v
     \<and> (case draw_cleanup v of
           None \<Rightarrow> mp = None \<or> cb = None
         | Some (m, draw) \<Rightarrow> mp = Some m \<and> cb \<noteq> None)"

definition modify_inv :: "VectorLayer \<Rightarrow> bool" where
  "modify_inv v \<longleftrightarrow>
     (case rendered v of
        None \<Rightarrow> modify_for None None None v
      | Some (p, l) \<Rightarrow> modify_for (map_prop p) l (onModify p) v)"

definition draw_inv :: "VectorLayer \<Rightarrow> bool" where
  "draw_inv v \<longleftrightarrow>
     (case rendered v of
        None \<Rightarrow> draw_for None None v
      | Some (p, l) \<Rightarrow> draw_for (map_prop p) (onDraw p) v)"

text \<open>A render that passes both callbacks, after the layer has been created.\<close>

definition both_callbacks :: "VectorLayer_event list" where
  "both_callbacks =
     [Render \<lparr>map_prop = Some 0, onModify = Some 1, onDraw = Some 2\<rparr> None,
      Render \<lparr>map_prop = Some 0, onModify = Some 1, onDraw = Some 2\<rparr> (Some 3)]"

definition draw_only :: "VectorLayer_event list" where
  "draw_only =
     [Render \<lparr>map_prop = Some 0, onModify = None, onDraw = Some 2\<rparr> None,
      Render \<lparr>map_prop = Some 0, onModify = None, onDraw = Some 2\<rparr> (Some 3)]"

section \<open>Submissions table: jumping to a page\<close>

text \<open>
  The numbers of \<^verbatim>\<open>SubmissionsTable.tsx\<close>: page numbers, and what \<^verbatim>\<open>parseInt\<close> returns,
  which is an integer or \<^verbatim>\<open>NaN\<close>.  Addition and subtraction give \<^verbatim>\<open>NaN\<close> when an operand
  is \<^verbatim>\<open>NaN\<close>, and every comparison with \<^verbatim>\<open>NaN\<close> is false.  (\<open>Num n\<close> is the number a
  JavaScript double holds exactly, which every integer up to \<open>2 ^ 53\<close> in absolute value is.)
\<close>

datatype js_number = NaN | Num int

fun js_add :: "js_number \<Rightarrow> js_number \<Rightarrow> js_number" where
  "js_add (Num a) (Num b) = Num (a + b)"
| "js_add NaN b = NaN"
| "js_add a NaN = NaN"

fun js_sub :: "js_number \<Rightarrow> js_number \<Rightarrow> js_number" where
  "js_sub (Num a) (Num b) = Num (a - b)"
| "js_sub NaN b = NaN"
| "js_sub a NaN = NaN"

fun js_gt :: "js_number \<Rightarrow> js_number \<Rightarrow> bool" where
  "js_gt (Num a) (Num b) \<longleftrightarrow> a > b"
| "js_gt NaN b \<longleftrightarrow> False"
| "js_gt a NaN \<longleftrightarrow> False"

fun js_lt :: "js_number \<Rightarrow> js_number \<Rightarrow> bool" where
  "js_lt (Num a) (Num b) \<longleftrightarrow> a < b"
| "js_lt NaN b \<longleftrightarrow> False"
| "js_lt a NaN \<longleftrightarrow> False"

text \<open>
  \<^verbatim>\<open>parseInt(string)\<close> without a radix: leading white space is skipped, then an optional
  sign, then the prefix \<^verbatim>\<open>0x\<close> or \<^verbatim>\<open>0X\<close> selects radix 16 (radix 10 otherwise), and the
  longest run of digits of that radix is read; whatever follows is ignored.  With no
  digit at that place the result is \<^verbatim>\<open>NaN\<close>.  \<open>digit_value\<close> gives 36 for a character that
  is no digit of any radix.
\<close>

definition digit_value :: "char \<Rightarrow> nat" where
  "digit_value c =
     (let n = of_char c :: nat in
      if 48 \<le> n \<and> n \<le> 57 then n - 48
      else if 97 \<le> n \<and> n \<le> 122 then n - 87
      else if 65 \<le> n \<and> n \<le> 90 then n - 55
      else 36)"

definition parseInt :: "string \<Rightarrow> js_number" where
  "parseInt string =
     (let S = dropWhile is_space string;
          sign = (if take 1 S = ''-'' then - 1 else 1 :: int);
          S = (if take 1 S = ''+'' \<or> take 1 S = ''-'' then drop 1 S else S);
          R = (if take 2 S = ''0x'' \<or> take 2 S = ''0X'' then 16 else 10 :: nat);
          S = (if R = 16 then drop 2 S else S);
          Z = takeWhile (\<lambda>c. digit_value c < R) S
      in if Z = [] then NaN
         else Num (sign * int (foldl (\<lambda>n c. n * R + digit_value c) 0 Z)))"

text \<open>
  \<^verbatim>\<open>handleChangePage\<close>.  The component keeps the current page in \<^verbatim>\<open>paginationPage\<close>;
  \<^verbatim>\<open>pages\<close> is \<^verbatim>\<open>submissionTableData?.pagination?.pages\<close>, the page count reported by
  the backend (as a number: \<^verbatim>\<open>NaN\<close> when it is \<^verbatim>\<open>undefined\<close>).  The function returns the
  value that \<^verbatim>\<open>setPaginationPage\<close> stores.
\<close>

definition handleChangePage :: "js_number \<Rightarrow> js_number \<Rightarrow> js_number \<Rightarrow> js_number" where
  "handleChangePage pages paginationPage newPage =
     (if js_gt (js_add newPage (Num 1)) pages \<or> js_lt (js_add newPage (Num 1)) (Num 1)
      then paginationPage
      else js_add newPage (Num 1))"

text \<open>
  The \<^verbatim>\<open>onKeyDown\<close> handler of the "Jump to" input, \<^verbatim>\<open><input type="number">\<close>.  The
  argument is \<^verbatim>\<open>e.currentTarget.value\<close>, a string; with the empty string the handler does
  nothing, otherwise it calls \<^verbatim>\<open>handleChangePage(e, parseInt(e.currentTarget.value) - 1)\<close>.
\<close>

definition jumpTo :: "js_number \<Rightarrow> js_number \<Rightarrow> string \<Rightarrow> js_number" where
  "jumpTo pages paginationPage v =
     (if v \<noteq> [] then handleChangePage pages paginationPage (js_sub (parseInt v) (Num 1))
      else paginationPage)"

section \<open>Properties\<close>

subsection \<open>Project details form\<close>

lemma map_of_assign_if:
  "map_of (assign_if c k m errors) k' = (if c \<and> k' = k then Some m else map_of errors k')"
  by (simp add: assign_if_def update_conv')

lemma organisation_id_error:
  "\<not> truthy_str (opt_field values organisation_id) \<Longrightarrow>
   map_of (fst (CreateProjectValidation isValidUrl lastIndex values)) ''organisation_id''
     = Some ''Organization is Required.''"
  by (simp add: CreateProjectValidation_def Let_def map_of_assign_if)

lemma odk_central_url_error:
  "\<not> truthy_bool (opt_field values defaultODKCredentials) \<Longrightarrow>
   \<not> truthy_str (opt_field values odk_central_url) \<Longrightarrow>
   map_of (fst (CreateProjectValidation isValidUrl lastIndex values)) ''odk_central_url''
     = Some ''ODK URL is Required.''"
  by (simp add: CreateProjectValidation_def Let_def map_of_assign_if)

lemma odk_central_user_error:
  "\<not> truthy_bool (opt_field values defaultODKCredentials) \<Longrightarrow>
   \<not> truthy_str (opt_field values odk_central_user) \<Longrightarrow>
   map_of (fst (CreateProjectValidation isValidUrl lastIndex values)) ''odk_central_user''
     = Some ''ODK Central User is Required.''"
  by (simp add: CreateProjectValidation_def Let_def map_of_assign_if)

lemma odk_central_password_error:
  "\<not> truthy_bool (opt_field values defaultODKCredentials) \<Longrightarrow>
   \<not> truthy_str (opt_field values odk_central_password) \<Longrightarrow>
   map_of (fst (CreateProjectValidation isValidUrl lastIndex values)) ''odk_central_password''
     = Some ''ODK Central Password is Required.''"
  by (simp add: CreateProjectValidation_def Let_def map_of_assign_if)

lemma handleSubmit_errors:
  "fst (handleSubmit validate callback values) = fst (validate values)"
  by (simp add: handleSubmit_def case_prod_beta)

lemma handleSubmit_blocked:
  "fst (validate values) \<noteq> [] \<Longrightarrow> fst (snd (handleSubmit validate callback values)) = []"
  by (simp add: handleSubmit_def case_prod_beta)

lemma handleSubmit_runs:
  "fst (validate values) = [] \<Longrightarrow>
   fst (snd (handleSubmit validate callback values)) = callback values"
  by (simp add: handleSubmit_def case_prod_beta)

lemma map_of_Some_nonempty: "map_of errors k = Some m \<Longrightarrow> errors \<noteq> []"
  by auto

text \<open>
  C3: validation reports a missing organisation and, when the default ODK credentials are
  not used, each missing one of ODK URL, user and password, each under its own field
  name; and whenever the errors object has a property, submitting stores these errors and
  runs nothing of the submission callback: no dispatch and no navigation.
\<close>

theorem CreateProjectValidation_required_fields:
  "(\<not> truthy_str (opt_field values organisation_id) \<longrightarrow>
      map_of (fst (CreateProjectValidation isValidUrl lastIndex values)) ''organisation_id''
        = Some ''Organization is Required.'')
   \<and> (\<not> truthy_bool (opt_field values defaultODKCredentials)
        \<and> \<not> truthy_str (opt_field values odk_central_url) \<longrightarrow>
      map_of (fst (CreateProjectValidation isValidUrl lastIndex values)) ''odk_central_url''
        = Some ''ODK URL is Required.'')
   \<and> (\<not> truthy_bool (opt_field values defaultODKCredentials)
        \<and> \<not> truthy_str (opt_field values odk_central_user) \<longrightarrow>
      map_of (fst (CreateProjectValidation isValidUrl lastIndex values)) ''odk_central_user''
        = Some ''ODK Central User is Required.'')
   \<and> (\<not> truthy_bool (opt_field values defaultODKCredentials)
        \<and> \<not> truthy_str (opt_field values odk_central_password) \<longrightarrow>
      map_of (fst (CreateProjectValidation isValidUrl lastIndex values)) ''odk_central_password''
        = Some ''ODK Central Password is Required.'')
   \<and> fst (handleSubmit (CreateProjectValidation isValidUrl lastIndex) (ProjectDetailsForm_submission flag) values)
        = fst (CreateProjectValidation isValidUrl lastIndex values)
   \<and> (fst (CreateProjectValidation isValidUrl lastIndex values) \<noteq> [] \<longrightarrow>
        fst (snd (handleSubmit (CreateProjectValidation isValidUrl lastIndex) (ProjectDetailsForm_submission flag) values))
          = [])
   \<and> (\<not> truthy_str (opt_field values organisation_id)
        \<or> \<not> truthy_bool (opt_field values defaultODKCredentials)
            \<and> (\<not> truthy_str (opt_field values odk_central_url)
                 \<or> \<not> truthy_str (opt_field values odk_central_user)
                 \<or> \<not> truthy_str (opt_field values odk_central_password)) \<longrightarrow>
        fst (CreateProjectValidation isValidUrl lastIndex values) \<noteq> [])"
  (is "?org \<and> ?url \<and> ?user \<and> ?pw \<and> ?stored \<and> ?blocked \<and> ?nonempty")
proof -
  have org: ?org by (simp add: organisation_id_error)
  have url: ?url by (simp add: odk_central_url_error)
  have user: ?user by (simp add: odk_central_user_error)
  have pw: ?pw by (simp add: odk_central_password_error)
  have stored: ?stored by (rule handleSubmit_errors)
  have blocked: ?blocked by (simp add: handleSubmit_blocked)
  have nonempty: ?nonempty
    using org url user pw by (metis map_of_Some_nonempty)
  from org url user pw stored blocked nonempty show ?thesis by blast
qed

theorem CreateProjectValidation_required_fields_witness:
  "map_of (fst (CreateProjectValidation (\<lambda>u. True) 0 (Some \<lparr>organisation_id = None,
        name = Some ''survey'', username = None, id_ = None, short_description = Some ''s'',
        description = Some ''d'', hashtags = None, odk_central_url = None,
        odk_central_user = Some [], odk_central_password = None,
        defaultODKCredentials = Some False\<rparr>)))
    = [''organisation_id'' \<mapsto> ''Organization is Required.'',
       ''odk_central_url'' \<mapsto> ''ODK URL is Required.'',
       ''odk_central_user'' \<mapsto> ''ODK Central User is Required.'',
       ''odk_central_password'' \<mapsto> ''ODK Central Password is Required.'']
   \<and> fst (snd (handleSubmit (CreateProjectValidation (\<lambda>u. True) 0) (ProjectDetailsForm_submission ''create_project'')
        (Some \<lparr>organisation_id = None,
        name = Some ''survey'', username = None, id_ = None, short_description = Some ''s'',
        description = Some ''d'', hashtags = None, odk_central_url = None,
        odk_central_user = Some [], odk_central_password = None,
        defaultODKCredentials = Some False\<rparr>))) = []"
  using CreateProjectValidation_required_fields [of "Some \<lparr>organisation_id = None,
        name = Some ''survey'', username = None, id_ = None, short_description = Some ''s'',
        description = Some ''d'', hashtags = None, odk_central_url = None,
        odk_central_user = Some [], odk_central_password = None,
        defaultODKCredentials = Some False\<rparr>" "\<lambda>u. True" 0 "''create_project''"]
  by (simp add: opt_field_def CreateProjectValidation_def Let_def assign_if_def
        regexForSymbol_test_def fun_eq_iff)

lemma regexForSymbol_test_fresh: "fst (regexForSymbol_test 0 s) \<longleftrightarrow> CHR ''_'' \<in> set s"
proof (cases "List.find (\<lambda>p. s ! p = CHR ''_'') [0 ..< length s]")
  case None
  then have "\<forall>p < length s. s ! p \<noteq> CHR ''_''" by (auto simp: find_None_iff)
  then have "CHR ''_'' \<notin> set s" by (auto simp: in_set_conv_nth)
  with None show ?thesis by (simp add: regexForSymbol_test_def)
next
  case (Some p)
  then have "p < length s \<and> s ! p = CHR ''_''" by (auto simp: find_Some_iff)
  then have "CHR ''_'' \<in> set s" by (auto simp: in_set_conv_nth)
  with Some show ?thesis by (simp add: regexForSymbol_test_def)
qed

lemma name_error:
  "truthy_str (opt_field values name) \<Longrightarrow>
   map_of (fst (CreateProjectValidation isValidUrl lastIndex values)) ''name'' =
     (if fst (regexForSymbol_test lastIndex (the (opt_field values name)))
      then Some ''Project Name should not contain _ .'' else None)"
  by (simp add: CreateProjectValidation_def Let_def map_of_assign_if)

text \<open>
  With \<^verbatim>\<open>lastIndex\<close> at 0, as it is when the module is loaded and after every
  \<^verbatim>\<open>test\<close> that found nothing, a name with an underscore is reported.
\<close>

lemma name_error_fresh:
  "opt_field values name = Some n \<Longrightarrow> CHR ''_'' \<in> set n \<Longrightarrow>
   map_of (fst (CreateProjectValidation isValidUrl 0 values)) ''name''
     = Some ''Project Name should not contain _ .''"
proof -
  assume n: "opt_field values name = Some n" and u: "CHR ''_'' \<in> set n"
  from u have "n \<noteq> []" by auto
  with n have "truthy_str (opt_field values name)" by simp
  from name_error [OF this, of isValidUrl 0] n u show ?thesis
    by (simp add: regexForSymbol_test_fresh)
qed

text \<open>
  C10 (a name with an underscore is always reported) fails on the second of two
  validations of the same values: the first \<^verbatim>\<open>test\<close> on \<^verbatim>\<open>a_b\<close> leaves
  \<^verbatim>\<open>lastIndex\<close> at 2, the second one searches from there, finds nothing, and the errors
  object comes back empty.
\<close>

theorem CreateProjectValidation_underscore_second_call:
  "CreateProjectValidation (\<lambda>u. True) 0 (Some \<lparr>organisation_id = Some ''1'',
        name = Some ''a_b'', username = None, id_ = None, short_description = Some ''s'',
        description = Some ''d'', hashtags = None, odk_central_url = Some ''https://odk.example.org'',
        odk_central_user = Some ''u'', odk_central_password = Some ''p'',
        defaultODKCredentials = Some False\<rparr>)
     = ([(''name'', ''Project Name should not contain _ .'')], 2)
   \<and> CreateProjectValidation (\<lambda>u. True) 2 (Some \<lparr>organisation_id = Some ''1'',
        name = Some ''a_b'', username = None, id_ = None, short_description = Some ''s'',
        description = Some ''d'', hashtags = None, odk_central_url = Some ''https://odk.example.org'',
        odk_central_user = Some ''u'', odk_central_password = Some ''p'',
        defaultODKCredentials = Some False\<rparr>)
     = ([], 0)"
  by (simp add: opt_field_def CreateProjectValidation_def Let_def assign_if_def
        regexForSymbol_test_def)

subsection \<open>The SplitTasks component\<close>

lemma tracked_Nil: "timers w = [] \<Longrightarrow> tracked w"
  by (simp add: tracked_def)

lemma call_fields [simp]:
  "store (call c w) = store w" "mounted (call c w) = mounted w"
  "generateProjectLogIntervalCb (call c w) = generateProjectLogIntervalCb w"
  "timers (call c w) = timers w" "calls (call c w) = calls w @ [c]"
  by (simp_all add: call_def)

lemma dispatch_fields [simp]:
  "store (dispatch a w) = reducer a (store w)" "mounted (dispatch a w) = mounted w"
  "generateProjectLogIntervalCb (dispatch a w) = generateProjectLogIntervalCb w"
  "timers (dispatch a w) = timers w" "calls (dispatch a w) = calls w @ [Dispatch a]"
  by (simp_all add: dispatch_def)

lemma clearInterval_fields [simp]:
  "store (clearInterval h w) = store w" "mounted (clearInterval h w) = mounted w"
  "generateProjectLogIntervalCb (clearInterval h w) = generateProjectLogIntervalCb w"
  "timers (clearInterval h w) = filter (\<lambda>t. Some (fst t) \<noteq> h) (timers w)"
  "calls (clearInterval h w) = calls w @ [ClearInterval h]"
  by (simp_all add: clearInterval_def)

lemma setInterval_fields [simp]:
  "store (snd (setInterval p d w)) = store w" "mounted (snd (setInterval p d w)) = mounted w"
  "generateProjectLogIntervalCb (snd (setInterval p d w)) = generateProjectLogIntervalCb w"
  "timers (snd (setInterval p d w)) = timers w @ [(next_timer w, d, p)]"
  "calls (snd (setInterval p d w)) = calls w @ [SetInterval (next_timer w) d]"
  "fst (setInterval p d w) = next_timer w"
  by (simp_all add: setInterval_def)

lemma tracked_clear: "tracked w \<Longrightarrow> filter (\<lambda>t. Some (fst t) \<noteq> generateProjectLogIntervalCb w) (timers w) = []"
  by (auto simp: tracked_def filter_empty_conv)

lemma checkTasksGeneration_fields [simp]:
  "store (checkTasksGeneration snap w) = store w" "mounted (checkTasksGeneration snap w) = mounted w"
  "generateProjectLogIntervalCb (checkTasksGeneration snap w) = generateProjectLogIntervalCb w"
  "timers (checkTasksGeneration snap w) = timers w" "calls (checkTasksGeneration snap w) = calls w"
  by (simp_all add: checkTasksGeneration_def)

lemma selection_effect_fields [simp]:
  "mounted (selection_effect snap w) = mounted w"
  "generateProjectLogIntervalCb (selection_effect snap w) = generateProjectLogIntervalCb w"
  "timers (selection_effect snap w) = timers w"
  by (simp_all add: selection_effect_def)

lemma qr_effect_fields [simp]:
  "store (qr_effect snap w) = store w" "mounted (qr_effect snap w) = mounted w"
  "generateProjectLogIntervalCb (qr_effect snap w) = generateProjectLogIntervalCb w"
  "timers (qr_effect snap w) = timers w"
  by (simp_all add: qr_effect_def Let_def)

lemma log_effect_mounted [simp]: "mounted (log_effect encode snap w) = mounted w"
  by (simp add: log_effect_def Let_def case_prod_beta)

lemma log_effect_noop: "generateQrSuccess snap = None \<Longrightarrow> log_effect encode snap w = w"
  by (simp add: log_effect_def Let_def)

lemma log_effect_failed:
  "generateQrSuccess snap \<noteq> None \<Longrightarrow> opt_prop (generateProjectLog snap) ''status'' = JStr ''FAILED'' \<Longrightarrow>
   log_effect encode snap w =
     call (SetSnackBar True [Lit ''QR Generation Failed. '', Val (opt_prop (generateProjectLog snap) ''message'')] ''error'' 10000)
       (clearInterval (generateProjectLogIntervalCb w) w)"
  by (simp add: log_effect_def Let_def)

lemma selection_effect_store [simp]:
  "generateQrSuccess (store (selection_effect snap w)) = generateQrSuccess (store w)"
  "generateProjectLog (store (selection_effect snap w)) = generateProjectLog (store w)"
  "splitTasksSelection (store (selection_effect snap w)) = splitTasksSelection (store w)"
  "isTasksGenerated (store (selection_effect snap w)) = isTasksGenerated (store w)"
  by (simp_all add: selection_effect_def)

lemma log_effect_store:
  "generateQrSuccess (store (log_effect encode snap w)) = (if success_cond snap then None else generateQrSuccess (store w))"
  "generateProjectLog (store (log_effect encode snap w)) = (if success_cond snap then None else generateProjectLog (store w))"
  "splitTasksSelection (store (log_effect encode snap w)) = (if success_cond snap then None else splitTasksSelection (store w))"
  "isTasksGenerated (store (log_effect encode snap w)) = isTasksGenerated (store w)"
  by (simp_all add: log_effect_def success_cond_def Let_def case_prod_beta)

lemma run_effects_store:
  "generateQrSuccess (store (run_effects encode sel gen qr lg snap w)) = (if (qr \<or> lg) \<and> success_cond snap then None else generateQrSuccess (store w))"
  "generateProjectLog (store (run_effects encode sel gen qr lg snap w)) = (if (qr \<or> lg) \<and> success_cond snap then None else generateProjectLog (store w))"
  "splitTasksSelection (store (run_effects encode sel gen qr lg snap w)) = (if (qr \<or> lg) \<and> success_cond snap then None else splitTasksSelection (store w))"
  "isTasksGenerated (store (run_effects encode sel gen qr lg snap w)) = isTasksGenerated (store w)"
  by (simp_all add: run_effects_def Let_def log_effect_store)

lemma selection_effect_noop: "splitTasksSelection snap = None \<Longrightarrow> selection_effect snap w = w"
  by (simp add: selection_effect_def)

lemma qr_effect_noop: "generateQrSuccess snap = None \<Longrightarrow> qr_effect snap w = w"
  by (simp add: qr_effect_def)

lemma checkTasksGeneration_eq: "checkTasksGeneration snap w = w\<lparr>taskGenerationStatus := taskGenerationStatus (checkTasksGeneration snap w)\<rparr>"
  by (simp add: checkTasksGeneration_def)

lemma run_effects_quiet:
  assumes "sel \<longrightarrow> splitTasksSelection snap = None" "qr \<or> lg \<longrightarrow> generateQrSuccess snap = None"
  shows "\<exists>b. run_effects encode sel gen qr lg snap w = w\<lparr>taskGenerationStatus := b\<rparr>"
proof -
  have w: "w = w\<lparr>taskGenerationStatus := taskGenerationStatus w\<rparr>" by simp
  obtain b where b: "(if sel \<or> gen then checkTasksGeneration snap w else w) = w\<lparr>taskGenerationStatus := b\<rparr>"
    using checkTasksGeneration_eq [of snap w] w by (cases "sel \<or> gen") metis+
  from assms have "run_effects encode sel gen qr lg snap w = (if sel \<or> gen then checkTasksGeneration snap w else w)"
    by (auto simp: run_effects_def Let_def selection_effect_noop qr_effect_noop log_effect_noop)
  with b show ?thesis by metis
qed

lemma second_render_quiet:
  "\<exists>b. rerender encode sel gen qr lg w = (run_effects encode sel gen qr lg (store w) w)\<lparr>taskGenerationStatus := b\<rparr>"
  unfolding rerender_def Let_def
  by (rule run_effects_quiet) (auto simp: run_effects_store split: if_splits)

lemma tracked_cong: "timers w' = timers w \<Longrightarrow> generateProjectLogIntervalCb w' = generateProjectLogIntervalCb w \<Longrightarrow> tracked w' = tracked w"
  by (simp add: tracked_def)

lemma tracked_idle: "tracked w \<Longrightarrow> generateProjectLogIntervalCb w = None \<Longrightarrow> timers w = []"
  by (cases "timers w") (auto simp: tracked_def)

lemma log_effect_terminal:
  assumes "tracked w" "generateQrSuccess snap \<noteq> None"
    "opt_prop (generateProjectLog snap) ''status'' = JStr ''SUCCESS'' \<or> opt_prop (generateProjectLog snap) ''status'' = JStr ''FAILED''"
  shows "timers (log_effect encode snap w) = []"
    "clear_count (log_effect encode snap w) = clear_count w + 1"
    "generateProjectLogIntervalCb (log_effect encode snap w) = generateProjectLogIntervalCb w"
  using assms by (auto simp: log_effect_def Let_def tracked_clear clear_count_def)

lemma log_effect_pending_idle:
  assumes "generateQrSuccess snap \<noteq> None" "opt_prop (generateProjectLog snap) ''status'' = JStr ''PENDING''"
    "generateProjectLogIntervalCb w = None"
  shows "timers (log_effect encode snap w) = timers w @ [(next_timer w, 5000, log_request snap)]"
    "generateProjectLogIntervalCb (log_effect encode snap w) = Some (next_timer w)"
    "clear_count (log_effect encode snap w) = clear_count w"
  using assms by (auto simp: log_effect_def Let_def case_prod_beta clear_count_def)

lemma log_effect_pending_busy:
  assumes "opt_prop (generateProjectLog snap) ''status'' \<noteq> JStr ''SUCCESS''"
     "opt_prop (generateProjectLog snap) ''status'' \<noteq> JStr ''FAILED''"
    "generateProjectLogIntervalCb w \<noteq> None"
  shows "log_effect encode snap w = w"
  using assms by (auto simp: log_effect_def Let_def case_prod_beta)

lemma log_effect_tracked: "tracked w \<Longrightarrow> tracked (log_effect encode snap w)"
proof -
  assume t: "tracked w"
  let ?st = "opt_prop (generateProjectLog snap) ''status''"
  consider (none) "generateQrSuccess snap = None"
    | (final) "generateQrSuccess snap \<noteq> None" "?st = JStr ''SUCCESS'' \<or> ?st = JStr ''FAILED''"
    | (pend) "generateQrSuccess snap \<noteq> None" "?st = JStr ''PENDING''" "generateProjectLogIntervalCb w = None"
    | (busy) "?st \<noteq> JStr ''SUCCESS''" "?st \<noteq> JStr ''FAILED''" "generateProjectLogIntervalCb w \<noteq> None"
    | (other) "generateQrSuccess snap \<noteq> None" "?st \<noteq> JStr ''SUCCESS''" "?st \<noteq> JStr ''FAILED''" "?st \<noteq> JStr ''PENDING''"
    by blast
  then show ?thesis
  proof cases
    case none then show ?thesis using t by (simp add: log_effect_noop)
  next
    case final then show ?thesis using log_effect_terminal(1) [OF t final] by (simp add: tracked_Nil)
  next
    case pend
    from tracked_idle [OF t pend(3)] log_effect_pending_idle [OF pend] show ?thesis
      by (simp add: tracked_def)
  next
    case busy then show ?thesis using t by (simp add: log_effect_pending_busy)
  next
    case other then show ?thesis using t by (simp add: log_effect_def Let_def)
  qed
qed

lemma run_effects_eq:
  "run_effects encode sel gen qr lg snap w =
     (if qr \<or> lg then log_effect encode snap (pre_log sel gen qr snap w) else pre_log sel gen qr snap w)"
  by (simp add: run_effects_def pre_log_def Let_def)

lemma clear_count_simps [simp]:
  "clear_count (call c w) = clear_count w + (if is_ClearInterval c then 1 else 0)"
  "clear_count (dispatch a w) = clear_count w"
  "clear_count (checkTasksGeneration snap w) = clear_count w"
  by (simp_all add: clear_count_def)

lemma clear_count_effects [simp]:
  "clear_count (selection_effect snap w) = clear_count w"
  "clear_count (qr_effect snap w) = clear_count w"
  by (simp_all add: selection_effect_def qr_effect_def Let_def clear_count_def)

lemma next_timer_simps [simp]:
  "next_timer (call c w) = next_timer w"
  "next_timer (dispatch a w) = next_timer w"
  "next_timer (checkTasksGeneration snap w) = next_timer w"
  "next_timer (selection_effect snap w) = next_timer w"
  "next_timer (qr_effect snap w) = next_timer w"
  by (simp_all add: call_def dispatch_def checkTasksGeneration_def selection_effect_def qr_effect_def Let_def)

lemma pre_log_fields [simp]:
  "timers (pre_log sel gen qr snap w) = timers w"
  "generateProjectLogIntervalCb (pre_log sel gen qr snap w) = generateProjectLogIntervalCb w"
  "mounted (pre_log sel gen qr snap w) = mounted w"
  "clear_count (pre_log sel gen qr snap w) = clear_count w"
  "next_timer (pre_log sel gen qr snap w) = next_timer w"
  by (simp_all add: pre_log_def Let_def)

lemma pre_log_tracked [simp]: "tracked (pre_log sel gen qr snap w) = tracked w"
  by (rule tracked_cong) simp_all

lemma run_effects_tracked: "tracked w \<Longrightarrow> tracked (run_effects encode sel gen qr lg snap w)"
  by (simp add: run_effects_eq log_effect_tracked)

lemma rerender_fields:
  "timers (rerender encode sel gen qr lg w) = timers (run_effects encode sel gen qr lg (store w) w)"
  "generateProjectLogIntervalCb (rerender encode sel gen qr lg w) = generateProjectLogIntervalCb (run_effects encode sel gen qr lg (store w) w)"
  "calls (rerender encode sel gen qr lg w) = calls (run_effects encode sel gen qr lg (store w) w)"
  "store (rerender encode sel gen qr lg w) = store (run_effects encode sel gen qr lg (store w) w)"
  "mounted (rerender encode sel gen qr lg w) = mounted (run_effects encode sel gen qr lg (store w) w)"
  using second_render_quiet [of encode sel gen qr lg w] by auto

lemma run_effects_mounted [simp]: "mounted (run_effects encode sel gen qr lg snap w) = mounted w"
  by (simp add: run_effects_def Let_def)

lemma rerender_tracked: "tracked w \<Longrightarrow> tracked (rerender encode sel gen qr lg w)"
  using run_effects_tracked [of w encode sel gen qr lg "store w"]
    tracked_cong [OF rerender_fields(1,2), of encode sel gen qr lg w]
  by simp

lemma settled_tracked: "settled w \<Longrightarrow> tracked w"
  by (simp add: settled_def)

lemma settledI: "tracked w \<Longrightarrow> mounted w \<Longrightarrow> settled w"
  by (simp add: settled_def)

lemma rerender_mounted [simp]: "mounted (rerender encode sel gen qr lg w) = mounted w"
  by (simp add: rerender_fields)

lemma unmount_settled: "tracked w \<Longrightarrow> settled ((unmount_cleanup w)\<lparr>mounted := False\<rparr>)"
  by (simp add: settled_def unmount_cleanup_def Let_def tracked_def tracked_clear)

lemma step_settled: "settled w \<Longrightarrow> settled (step encode e w)"
proof -
  assume s: "settled w"
  then have t: "tracked w" by (rule settled_tracked)
  show ?thesis
  proof (cases e)
    case Mount
    show ?thesis
    proof (cases "mounted w")
      case True with s Mount show ?thesis by simp
    next
      case False
      let ?w = "w\<lparr>mounted := True, toggleStatus := False, taskGenerationStatus := False\<rparr>"
      from t have "tracked ?w" by (simp add: tracked_def)
      then have "tracked (rerender encode True True True True ?w)" by (rule rerender_tracked)
      then have "settled (rerender encode True True True True ?w)" by (rule settledI) simp
      with Mount False show ?thesis by simp
    qed
  next
    case Unmount
    with s unmount_settled [OF t] show ?thesis by simp
  next
    case (StoreDispatch a)
    let ?w = "w\<lparr>store := reducer a (store w)\<rparr>"
    from t have tw: "tracked ?w" by (simp add: tracked_def)
    show ?thesis
    proof (cases "mounted w")
      case True
      from tw have "tracked (render_after encode a (store w) ?w)"
        unfolding render_after_def by (rule rerender_tracked)
      then have "settled (render_after encode a (store w) ?w)"
        by (rule settledI) (simp add: render_after_def True)
      with StoreDispatch True show ?thesis by (simp add: Let_def)
    next
      case False
      with s have "settled ?w" by (simp add: settled_def tracked_def)
      with StoreDispatch False show ?thesis by (simp add: Let_def)
    qed
  next
    case (TimerFires i)
    have "settled (call c w)" for c using s by (simp add: settled_def tracked_def)
    with s TimerFires show ?thesis by (simp split: option.splits)
  next
    case (SelectOption v)
    show ?thesis
    proof (cases "mounted w")
      case False with s SelectOption show ?thesis by simp
    next
      case True
      let ?w1 = "dispatch (SetSplitTasksSelection (Some v)) (call (HandleCustomChange_task_split_type v) w)"
      let ?w2 = "if v = choose_area_as_task
                 then dispatch (SetIsTasksGenerated ''task_splitting_algorithm'' False)
                        (dispatch (SetIsTasksGenerated ''divide_on_square'' False) ?w1)
                 else ?w1"
      from t have t2: "tracked ?w2" by (simp add: tracked_def)
      have m2: "mounted ?w2" using True by simp
      from t2 have "tracked (rerender encode (splitTasksSelection (store w) \<noteq> Some v) (v = choose_area_as_task) False False ?w2)"
        by (rule rerender_tracked)
      then have "settled (rerender encode (splitTasksSelection (store w) \<noteq> Some v) (v = choose_area_as_task) False False ?w2)"
        by (rule settledI) (simp only: rerender_mounted m2)
      with SelectOption True show ?thesis by (simp add: Let_def)
    qed
  qed
qed

lemma run_events_settled: "settled w \<Longrightarrow> settled (run_events encode evs w)"
  unfolding run_events_def by (induction evs arbitrary: w) (simp_all add: step_settled)

lemma init_settled: "settled (init_world state0)"
  by (simp add: settled_def tracked_def init_world_def)


lemma reachable_settled: "settled (run_events encode evs (init_world state0))"
  by (rule run_events_settled) (rule init_settled)


lemma log_response_step:
  "mounted w \<Longrightarrow>
   step encode (StoreDispatch (SetGenerateProjectLog (Some lg))) w =
     rerender encode False False False True (w\<lparr>store := (store w)\<lparr>generateProjectLog := Some lg\<rparr>\<rparr>)"
  by (simp add: Let_def render_after_def)


lemma pre_log_none [simp]: "pre_log False False False snap w = w"
  by (simp add: pre_log_def)



lemma terminal_cong:
  "generateQrSuccess s' = generateQrSuccess s \<Longrightarrow> generateProjectLog s' = generateProjectLog s \<Longrightarrow>
   terminal s' = terminal s"
  by (simp add: terminal_def)


lemma pre_log_store [simp]:
  "generateQrSuccess (store (pre_log sel gen qr snap w)) = generateQrSuccess (store w)"
  "generateProjectLog (store (pre_log sel gen qr snap w)) = generateProjectLog (store w)"
  by (simp_all add: pre_log_def Let_def)

lemma pre_log_finished [simp]: "finished (pre_log sel gen qr snap w) = finished w"
  by (simp add: finished_def terminal_cong [of "store (pre_log sel gen qr snap w)" "store w"])










lemma tracked_busy: "tracked w \<Longrightarrow> timers w \<noteq> [] \<Longrightarrow> generateProjectLogIntervalCb w \<noteq> None"
  by (cases "timers w") (auto simp: tracked_def)

lemma log_effect_keeps:
  assumes t: "tracked w" and n: "timers w \<noteq> []"
    and c: "timers (log_effect encode snap w) \<noteq> timers w"
  shows "generateQrSuccess snap \<noteq> None
    \<and> (opt_prop (generateProjectLog snap) ''status'' = JStr ''SUCCESS''
       \<or> opt_prop (generateProjectLog snap) ''status'' = JStr ''FAILED'')"
proof (rule ccontr)
  assume a: "\<not> ?thesis"
  from tracked_busy [OF t n] have b: "generateProjectLogIntervalCb w \<noteq> None" .
  have "log_effect encode snap w = w"
  proof (cases "generateQrSuccess snap = None")
    case True then show ?thesis by (rule log_effect_noop)
  next
    case False
    with a show ?thesis by (intro log_effect_pending_busy b) auto
  qed
  with c show False by simp
qed

lemma pending_step:
  assumes s: "settled w" and m: "mounted w" and q: "generateQrSuccess (store w) \<noteq> None"
    and st: "get_prop lg ''status'' = JStr ''PENDING''"
  shows "generateProjectLogIntervalCb w = None \<Longrightarrow>
      timers (step encode (StoreDispatch (SetGenerateProjectLog (Some lg))) w)
        = [(next_timer w, 5000, log_request ((store w)\<lparr>generateProjectLog := Some lg\<rparr>))]
      \<and> generateProjectLogIntervalCb (step encode (StoreDispatch (SetGenerateProjectLog (Some lg))) w)
        = Some (next_timer w)"
    "generateProjectLogIntervalCb w \<noteq> None \<Longrightarrow>
      timers (step encode (StoreDispatch (SetGenerateProjectLog (Some lg))) w) = timers w
      \<and> generateProjectLogIntervalCb (step encode (StoreDispatch (SetGenerateProjectLog (Some lg))) w)
        = generateProjectLogIntervalCb w"
proof -
  let ?w = "w\<lparr>store := (store w)\<lparr>generateProjectLog := Some lg\<rparr>\<rparr>"
  have q': "generateQrSuccess (store ?w) \<noteq> None" using q by simp
  have st': "opt_prop (generateProjectLog (store ?w)) ''status'' = JStr ''PENDING''"
    using st by (simp add: opt_prop_def)
  {
    assume i: "generateProjectLogIntervalCb w = None"
    then have i': "generateProjectLogIntervalCb ?w = None" by simp
    from s i have e: "timers w = []" by (simp add: settled_def tracked_idle)
    from log_effect_pending_idle [OF q' st' i', of encode] e m
    show "timers (step encode (StoreDispatch (SetGenerateProjectLog (Some lg))) w)
        = [(next_timer w, 5000, log_request ((store w)\<lparr>generateProjectLog := Some lg\<rparr>))]
      \<and> generateProjectLogIntervalCb (step encode (StoreDispatch (SetGenerateProjectLog (Some lg))) w)
        = Some (next_timer w)"
      by (simp only: log_response_step rerender_fields run_effects_eq pre_log_none) simp
  next
    assume b: "generateProjectLogIntervalCb w \<noteq> None"
    then have b': "generateProjectLogIntervalCb ?w \<noteq> None" by simp
    have "log_effect encode (store ?w) ?w = ?w"
      by (rule log_effect_pending_busy [OF _ _ b']) (simp_all add: st opt_prop_def)
    with m show "timers (step encode (StoreDispatch (SetGenerateProjectLog (Some lg))) w) = timers w
      \<and> generateProjectLogIntervalCb (step encode (StoreDispatch (SetGenerateProjectLog (Some lg))) w)
        = generateProjectLogIntervalCb w"
      by (simp only: log_response_step rerender_fields run_effects_eq pre_log_none) simp
  }
qed

lemma step_keeps:
  assumes s: "settled w" and n: "timers w \<noteq> []"
    and c: "timers (step encode e w) \<noteq> timers w"
  shows "e = Unmount
    \<or> (\<exists>a. e = StoreDispatch a \<and> generateQrSuccess (reducer a (store w)) \<noteq> None
          \<and> (opt_prop (generateProjectLog (reducer a (store w))) ''status'' = JStr ''SUCCESS''
             \<or> opt_prop (generateProjectLog (reducer a (store w))) ''status'' = JStr ''FAILED''))"
proof -
  from s n have m: "mounted w" by (auto simp: settled_def)
  from s have t: "tracked w" by (simp add: settled_def)
  show ?thesis
  proof (cases e)
    case Mount with m c show ?thesis by simp
  next
    case Unmount then show ?thesis by simp
  next
    case (StoreDispatch a)
    let ?w = "w\<lparr>store := reducer a (store w)\<rparr>"
    let ?q = "assigns_generateQrSuccess a
          \<and> (generateQrSuccess (store w) \<noteq> None \<or> generateQrSuccess (store ?w) \<noteq> None)"
    let ?l = "assigns_generateProjectLog a
          \<and> (generateProjectLog (store w) \<noteq> None \<or> generateProjectLog (store ?w) \<noteq> None)"
    let ?p = "pre_log (splitTasksSelection (store ?w) \<noteq> splitTasksSelection (store w))
                (assigns_isTasksGenerated a) ?q (store ?w) ?w"
    let ?s = "splitTasksSelection (store ?w) \<noteq> splitTasksSelection (store w)"
    let ?g = "assigns_isTasksGenerated a"
    have tp: "tracked ?p" using t by (simp add: tracked_def)
    have np: "timers ?p \<noteq> []" using n by simp
    have e: "step encode e w = render_after encode a (store w) ?w"
      using StoreDispatch m by (simp add: Let_def)
    have r: "timers (render_after encode a (store w) ?w)
        = timers (run_effects encode ?s ?g ?q ?l (store ?w) ?w)"
      unfolding render_after_def by (rule rerender_fields(1))
    have "timers (log_effect encode (store ?w) ?p) \<noteq> timers ?p"
    proof (cases "?q \<or> ?l")
      case True
      then have "run_effects encode ?s ?g ?q ?l (store ?w) ?w = log_effect encode (store ?w) ?p"
        by (simp only: run_effects_eq if_True)
      with c e r show ?thesis by simp
    next
      case False
      then have "run_effects encode ?s ?g ?q ?l (store ?w) ?w = ?p"
        by (simp only: run_effects_eq if_False)
      with c e r show ?thesis by simp
    qed
    from log_effect_keeps [OF tp np this] StoreDispatch show ?thesis by simp
  next
    case (TimerFires i) with c show ?thesis by (simp split: option.splits prod.splits)
  next
    case (SelectOption v)
    with m c show ?thesis by (simp add: Let_def rerender_fields run_effects_eq split: if_splits)
  qed
qed

lemma timer_fires:
  "timers w = [(i, d, p)] \<Longrightarrow>
   step encode (TimerFires i) w
     = call (GenerateProjectLog [Env ''VITE_API_URL'', Lit ''/projects/generate-log/''] p) w"
  by simp

text \<open>
  What does hold of the polling.  In every state the component can reach there is at most
  one interval and its delay is 5000 ms.  A log with status \<^verbatim>\<open>PENDING\<close>, with a QR task
  set, starts that interval when \<^verbatim>\<open>generateProjectLogIntervalCb\<close> is \<^verbatim>\<open>null\<close>, and otherwise
  changes nothing: no second interval and no other delay.  Each time the interval fires
  the log endpoint is requested.  And only unmounting or a store in which the status is
  \<^verbatim>\<open>SUCCESS\<close> or \<^verbatim>\<open>FAILED\<close> (with a QR task set) ends an active interval.
\<close>

theorem polling_fixed_interval:
  assumes reach: "w = run_events encode evs (init_world state0)"
  shows "length (timers w) \<le> 1
     \<and> (\<forall>t \<in> set (timers w). fst (snd t) = 5000 \<and> generateProjectLogIntervalCb w = Some (fst t))
     \<and> (mounted w \<and> generateQrSuccess (store w) \<noteq> None \<and> get_prop lg ''status'' = JStr ''PENDING''
          \<and> generateProjectLogIntervalCb w = None \<longrightarrow>
           timers (step encode (StoreDispatch (SetGenerateProjectLog (Some lg))) w)
             = [(next_timer w, 5000, log_request ((store w)\<lparr>generateProjectLog := Some lg\<rparr>))]
           \<and> generateProjectLogIntervalCb (step encode (StoreDispatch (SetGenerateProjectLog (Some lg))) w)
             = Some (next_timer w))
     \<and> (mounted w \<and> generateQrSuccess (store w) \<noteq> None \<and> get_prop lg ''status'' = JStr ''PENDING''
          \<and> generateProjectLogIntervalCb w \<noteq> None \<longrightarrow>
           timers (step encode (StoreDispatch (SetGenerateProjectLog (Some lg))) w) = timers w
           \<and> generateProjectLogIntervalCb (step encode (StoreDispatch (SetGenerateProjectLog (Some lg))) w)
             = generateProjectLogIntervalCb w)
     \<and> (timers w = [(i, d, p)] \<longrightarrow>
           step encode (TimerFires i) w
             = call (GenerateProjectLog [Env ''VITE_API_URL'', Lit ''/projects/generate-log/''] p) w)
     \<and> (timers w \<noteq> [] \<and> timers (step encode e w) \<noteq> timers w \<longrightarrow>
           e = Unmount
           \<or> (\<exists>a. e = StoreDispatch a \<and> generateQrSuccess (reducer a (store w)) \<noteq> None
                \<and> (opt_prop (generateProjectLog (reducer a (store w))) ''status'' = JStr ''SUCCESS''
                   \<or> opt_prop (generateProjectLog (reducer a (store w))) ''status'' = JStr ''FAILED'')))"
proof -
  from reach have s: "settled w" by (simp add: reachable_settled)
  then have t: "tracked w" by (simp add: settled_def)
  from t have 1: "length (timers w) \<le> 1"
    and 2: "\<forall>t \<in> set (timers w). fst (snd t) = 5000 \<and> generateProjectLogIntervalCb w = Some (fst t)"
    by (auto simp: tracked_def)
  from 1 2 pending_step [OF s, of lg encode] timer_fires [of w i d p encode] step_keeps [OF s, of encode e]
  show ?thesis by blast
qed

text \<open>
  C2: whatever the store holds, when the user changes the split type to "choose area as
  task", \<^verbatim>\<open>dividedTaskGeojson\<close> is \<^verbatim>\<open>null\<close> afterwards.
\<close>

theorem choose_area_clears_dividedTaskGeojson:
  "mounted w \<and> splitTasksSelection (store w) \<noteq> Some choose_area_as_task \<longrightarrow>
     dividedTaskGeojson (store (step encode (SelectOption choose_area_as_task) w)) = None
     \<and> splitTasksSelection (store (step encode (SelectOption choose_area_as_task) w))
         = Some choose_area_as_task"
  by (simp add: Let_def rerender_fields run_effects_eq pre_log_def selection_effect_def)





theorem choose_area_clears_dividedTaskGeojson_witness:
  "mounted example_idle
   \<and> splitTasksSelection (store example_idle) \<noteq> Some choose_area_as_task
   \<and> dividedTaskGeojson (store example_idle) = Some [(''type'', JStr ''FeatureCollection'')]
   \<and> dividedTaskGeojson (store (step (\<lambda>v. ''p1'') (SelectOption choose_area_as_task) example_idle))
       = None"
proof -
  have h: "mounted example_idle
      \<and> splitTasksSelection (store example_idle) \<noteq> Some choose_area_as_task
      \<and> dividedTaskGeojson (store example_idle) = Some [(''type'', JStr ''FeatureCollection'')]"
    by code_simp
  from h choose_area_clears_dividedTaskGeojson [of example_idle "\<lambda>v. ''p1''"]
  show ?thesis by blast
qed

theorem polling_fixed_interval_witness:
  "mounted example_idle
   \<and> generateQrSuccess (store example_idle) \<noteq> None
   \<and> generateProjectLogIntervalCb example_idle = None
   \<and> timers (step (\<lambda>v. ''p1'')
        (StoreDispatch (SetGenerateProjectLog (Some (example_log ''PENDING'')))) example_idle)
       = [(1, 5000, [(''project_id'', JUndefined), (''uuid'', JStr ''t1'')])]
   \<and> generateProjectLogIntervalCb example_polling = Some 1
   \<and> timers example_polling = [(1, 5000, [(''project_id'', JUndefined), (''uuid'', JStr ''t1'')])]
   \<and> timers (step (\<lambda>v. ''p1'')
        (StoreDispatch (SetGenerateProjectLog (Some (example_log ''PENDING'')))) example_polling)
       = timers example_polling
   \<and> step (\<lambda>v. ''p1'') (TimerFires 1) example_polling
       = call (GenerateProjectLog [Env ''VITE_API_URL'', Lit ''/projects/generate-log/'']
                 [(''project_id'', JUndefined), (''uuid'', JStr ''t1'')]) example_polling
   \<and> timers (step (\<lambda>v. ''p1'') (SelectOption divide_on_square) example_polling)
       = timers example_polling"
proof -
  have h: "mounted example_idle \<and> generateQrSuccess (store example_idle) \<noteq> None
      \<and> generateProjectLogIntervalCb example_idle = None \<and> next_timer example_idle = 1
      \<and> log_request ((store example_idle)\<lparr>generateProjectLog := Some (example_log ''PENDING'')\<rparr>)
          = [(''project_id'', JUndefined), (''uuid'', JStr ''t1'')]
      \<and> get_prop (example_log ''PENDING'') ''status'' = JStr ''PENDING''"
    by code_simp
  have k: "mounted example_polling \<and> generateQrSuccess (store example_polling) \<noteq> None
      \<and> generateProjectLogIntervalCb example_polling = Some 1
      \<and> timers example_polling = [(1, 5000, [(''project_id'', JUndefined), (''uuid'', JStr ''t1'')])]"
    by code_simp
  from k have n: "generateProjectLogIntervalCb example_polling \<noteq> None" "timers example_polling \<noteq> []"
    by simp_all
  note a = polling_fixed_interval [OF example_idle_def, of "example_log ''PENDING''"]
  note b = polling_fixed_interval [OF example_polling_def, of "example_log ''PENDING''" 1 5000
      "[(''project_id'', JUndefined), (''uuid'', JStr ''t1'')]" "SelectOption divide_on_square"]
  from a h have 1: "timers (step (\<lambda>v. ''p1'')
        (StoreDispatch (SetGenerateProjectLog (Some (example_log ''PENDING'')))) example_idle)
       = [(1, 5000, [(''project_id'', JUndefined), (''uuid'', JStr ''t1'')])]"
    by simp
  from b h k n have 2: "timers (step (\<lambda>v. ''p1'')
        (StoreDispatch (SetGenerateProjectLog (Some (example_log ''PENDING'')))) example_polling)
       = timers example_polling"
    by blast
  from b k have 3: "step (\<lambda>v. ''p1'') (TimerFires 1) example_polling
       = call (GenerateProjectLog [Env ''VITE_API_URL'', Lit ''/projects/generate-log/'']
                 [(''project_id'', JUndefined), (''uuid'', JStr ''t1'')]) example_polling"
    by blast
  from b n have 4: "timers (step (\<lambda>v. ''p1'') (SelectOption divide_on_square) example_polling)
       = timers example_polling"
    by blast
  from h k 1 2 3 4 show ?thesis by blast
qed


text \<open>
  C6 fails once a QR task has finished.  The two branches for a finished task call
  \<^verbatim>\<open>clearInterval\<close> but, unlike the cleanup on unmount, leave the identifier in
  \<^verbatim>\<open>generateProjectLogIntervalCb\<close>.  In the run \<open>example_stale\<close> a log with status \<^verbatim>\<open>PENDING\<close>
  arrives after one with status \<^verbatim>\<open>FAILED\<close>: the component is mounted, the QR task is
  set and the status is \<^verbatim>\<open>PENDING\<close>, but no interval is active, so the log endpoint is
  not polled, and a further log with status \<^verbatim>\<open>PENDING\<close> starts none either.
\<close>

theorem polling_not_restarted_after_terminal:
  "mounted example_stale
   \<and> generateQrSuccess (store example_stale) = Some example_qr
   \<and> opt_prop (generateProjectLog (store example_stale)) ''status'' = JStr ''PENDING''
   \<and> generateProjectLogIntervalCb example_stale = Some 1
   \<and> timers example_stale = []
   \<and> timers (step (\<lambda>v. ''p1'')
        (StoreDispatch (SetGenerateProjectLog (Some (example_log ''PENDING'')))) example_stale) = []"
proof -
  have s: "settled example_stale" unfolding example_stale_def by (rule reachable_settled)
  have e: "mounted example_stale
      \<and> generateQrSuccess (store example_stale) = Some example_qr
      \<and> opt_prop (generateProjectLog (store example_stale)) ''status'' = JStr ''PENDING''
      \<and> generateProjectLogIntervalCb example_stale = Some 1
      \<and> timers example_stale = []"
    by code_simp
  have "get_prop (example_log ''PENDING'') ''status'' = JStr ''PENDING''" by code_simp
  from pending_step(2) [OF s _ _ this, of "\<lambda>v. ''p1''"] e show ?thesis by simp
qed

subsection \<open>The project API layer\<close>

lemma dispatched_append [simp]: "dispatched (xs @ ys) = dispatched xs @ dispatched ys"
  by (induction xs rule: dispatched.induct) simp_all

lemma loading_flags_simps [simp]:
  "loading_flags [] = []"
  "loading_flags (e # es) =
     (case loading_value e of None \<Rightarrow> loading_flags es | Some b \<Rightarrow> b # loading_flags es)"
  by (simp_all add: loading_flags_def map_filter_simps split: option.splits)

lemma loading_flags_append [simp]: "loading_flags (xs @ ys) = loading_flags xs @ loading_flags ys"
  by (induction xs) (simp_all split: option.splits)

text \<open>
  C4, amended: a download action dispatches its loading flag three times and nothing
  else: \<^verbatim>\<open>true\<close> first, then \<^verbatim>\<open>false\<close> twice (at the end of the \<^verbatim>\<open>try\<close> block or in
  \<^verbatim>\<open>catch\<close>, and again in \<^verbatim>\<open>finally\<close>), whether the request answers or throws.
\<close>

theorem download_loading_sequence:
  "dispatched (DownloadProjectForm axios url payload projectId) =
     [SetDownloadProjectFormLoading payload True,
      SetDownloadProjectFormLoading payload False,
      SetDownloadProjectFormLoading payload False]
   \<and> dispatched (DownloadDataExtract axios url payload) =
     [SetDownloadDataExtractLoading True,
      SetDownloadDataExtractLoading False,
      SetDownloadDataExtractLoading False]
   \<and> dispatched (DownloadTile axios url payload) =
     [SetDownloadTileLoading payload True,
      SetDownloadTileLoading payload False,
      SetDownloadTileLoading payload False]
   \<and> loading_flags (DownloadProjectForm axios url payload projectId) = [True, False, False]
   \<and> loading_flags (DownloadDataExtract axios url payload) = [True, False, False]
   \<and> loading_flags (DownloadTile axios url payload) = [True, False, False]"
  by (simp add: DownloadProjectForm_def DownloadDataExtract_def DownloadTile_def
        try_catch_finally_def split: sum.splits option.splits)

text \<open>
  C4 as stated fails: \<^verbatim>\<open>false\<close> is dispatched twice, not once, on a request that throws
  and on one that answers.
\<close>

theorem download_loading_false_twice_counterexample:
  "loading_flags (DownloadDataExtract axios_throws [Lit ''/extract''] JNull) = [True, False, False]
   \<and> loading_flags (DownloadDataExtract axios_blob [Lit ''/extract''] JNull) = [True, False, False]
   \<and> loading_flags (DownloadDataExtract axios_blob [Lit ''/extract''] JNull) \<noteq> [True, False]"
  by (simp add: DownloadDataExtract_def try_catch_finally_def axios_throws_def axios_blob_def)

text \<open>
  C8 fails for \<^verbatim>\<open>ProjectById\<close>: its \<^verbatim>\<open>catch\<close> block is empty, so when the request throws
  the loading flag stays \<^verbatim>\<open>true\<close>.  The lemmas after it show that the flag is lost
  wherever the \<^verbatim>\<open>try\<close> block throws, and that every other action creator resets its
  flag.
\<close>

theorem ProjectById_request_throws:
  "ProjectById task_priority_str axios_throws existingProjectList projectId =
     [Dispatched (SetProjectDetialsLoading True), Dispatched SetNewProjectTrigger]
   \<and> loading_flags (ProjectById task_priority_str axios_throws existingProjectList projectId) = [True]"
  by (simp add: ProjectById_def fetchProjectById_def try_catch_finally_def axios_throws_def)

lemma fetchProjectById_throws:
  "snd (fetchProjectById task_priority_str axios projectId) = Some e \<Longrightarrow>
   fst (fetchProjectById task_priority_str axios projectId) = [Dispatched (SetProjectDetialsLoading True)]"
  by (auto simp: fetchProjectById_def Let_def split: sum.splits prod.splits)

lemma ProjectById_throws:
  "snd (fetchProjectById task_priority_str axios projectId) = Some e \<Longrightarrow>
   ProjectById task_priority_str axios existingProjectList projectId =
     [Dispatched (SetProjectDetialsLoading True), Dispatched SetNewProjectTrigger]"
  by (simp add: ProjectById_def try_catch_finally_def fetchProjectById_throws)

lemma siblings_reset_on_throw:
  assumes "axios url = Inl e"
  shows "GetTilesList axios url =
      [Dispatched (SetTilesListLoading True), Dispatched (SetTilesListLoading False),
       Dispatched (SetTilesListLoading False)]"
    "GenerateProjectTiles axios url payload =
      [Dispatched (SetGenerateProjectTilesLoading True),
       Dispatched (SetGenerateProjectTilesLoading False),
       Dispatched (SetGenerateProjectTilesLoading False)]"
    "GetProjectDashboard axios url =
      [Dispatched (SetProjectDashboardLoading True),
       Dispatched (SetProjectDashboardLoading False),
       Dispatched (SetProjectDashboardLoading False)]"
    "DownloadProjectForm axios url payload projectId =
      [Dispatched (SetDownloadProjectFormLoading payload True),
       Dispatched (SetDownloadProjectFormLoading payload False),
       Dispatched (SetDownloadProjectFormLoading payload False)]"
    "DownloadDataExtract axios url payload =
      [Dispatched (SetDownloadDataExtractLoading True),
       Dispatched (SetDownloadDataExtractLoading False),
       Dispatched (SetDownloadDataExtractLoading False)]"
    "DownloadTile axios url payload =
      [Dispatched (SetDownloadTileLoading payload True),
       Dispatched (SetDownloadTileLoading payload False),
       Dispatched (SetDownloadTileLoading payload False)]"
  using assms
  by (simp_all add: GetTilesList_def GetTilesList_start_def GetTilesList_rest_def
        GenerateProjectTiles_def GetProjectDashboard_def DownloadProjectForm_def
        DownloadDataExtract_def DownloadTile_def try_catch_finally_def)


subsection \<open>The map adapter\<close>

lemma registered_iff: "registered k m v \<longleftrightarrow> (\<exists>i. (m, k, i) \<in> set (interactions v))"
  by (force simp: registered_def list_ex_iff)

lemma cleanup_fields [simp]:
  "rendered (modify_effect_cleanup v) = rendered v"
  "draw_cleanup (modify_effect_cleanup v) = draw_cleanup v"
  "modify_cleanup (modify_effect_cleanup v) = None"
  "rendered (draw_effect_cleanup v) = rendered v"
  "modify_cleanup (draw_effect_cleanup v) = modify_cleanup v"
  "draw_cleanup (draw_effect_cleanup v) = None"
  by (simp_all add: modify_effect_cleanup_def draw_effect_cleanup_def removeInteraction_def Let_def
        split: option.splits prod.splits)

lemma parts_add [simp]:
  "modify_part (addInteraction m k i v) = (if k = Draw then modify_part v else insert (m, k, i) (modify_part v))"
  "draw_part (addInteraction m k i v) = (if k = Draw then insert (m, k, i) (draw_part v) else draw_part v)"
  by (auto simp: modify_part_def draw_part_def addInteraction_def)

lemma parts_remove [simp]:
  "modify_part (removeInteraction m k i v) = modify_part v - {(m, k, i)}"
  "draw_part (removeInteraction m k i v) = draw_part v - {(m, k, i)}"
  by (auto simp: modify_part_def draw_part_def removeInteraction_def)

lemma parts_update [simp]:
  "modify_part (v\<lparr>next_object := n\<rparr>) = modify_part v"
  "draw_part (v\<lparr>next_object := n\<rparr>) = draw_part v"
  "modify_part (v\<lparr>modify_cleanup := c\<rparr>) = modify_part v"
  "draw_part (v\<lparr>modify_cleanup := c\<rparr>) = draw_part v"
  "modify_part (v\<lparr>draw_cleanup := d\<rparr>) = modify_part v"
  "draw_part (v\<lparr>draw_cleanup := d\<rparr>) = draw_part v"
  "modify_part (v\<lparr>rendered := r\<rparr>) = modify_part v"
  "draw_part (v\<lparr>rendered := r\<rparr>) = draw_part v"
  by (simp_all add: modify_part_def draw_part_def)

lemma add_remove_fields [simp]:
  "rendered (addInteraction m k i v) = rendered v"
  "modify_cleanup (addInteraction m k i v) = modify_cleanup v"
  "draw_cleanup (addInteraction m k i v) = draw_cleanup v"
  "next_object (addInteraction m k i v) = next_object v"
  "rendered (removeInteraction m k i v) = rendered v"
  "modify_cleanup (removeInteraction m k i v) = modify_cleanup v"
  "draw_cleanup (removeInteraction m k i v) = draw_cleanup v"
  by (simp_all add: addInteraction_def removeInteraction_def)

lemma part_kinds [simp]:
  "(m, Modify, i) \<notin> draw_part v" "(m, Select, i) \<notin> draw_part v" "(m, Draw, i) \<notin> modify_part v"
  by (simp_all add: draw_part_def modify_part_def)

lemma modify_cleanup_parts:
  "modify_ok v \<Longrightarrow> modify_part (modify_effect_cleanup v) = {}"
  "draw_part (modify_effect_cleanup v) = draw_part v"
proof -
  show "modify_ok v \<Longrightarrow> modify_part (modify_effect_cleanup v) = {}"
    by (cases "modify_cleanup v") (auto simp: modify_ok_def modify_effect_cleanup_def Let_def)
  show "draw_part (modify_effect_cleanup v) = draw_part v"
    by (cases "modify_cleanup v") (auto simp: modify_effect_cleanup_def Let_def)
qed

lemma draw_cleanup_parts:
  "draw_ok v \<Longrightarrow> draw_part (draw_effect_cleanup v) = {}"
  "modify_part (draw_effect_cleanup v) = modify_part v"
proof -
  show "draw_ok v \<Longrightarrow> draw_part (draw_effect_cleanup v) = {}"
    by (cases "draw_cleanup v") (auto simp: draw_ok_def draw_effect_cleanup_def Let_def)
  show "modify_part (draw_effect_cleanup v) = modify_part v"
    by (cases "draw_cleanup v") (auto simp: draw_effect_cleanup_def Let_def)
qed

lemma modify_effect_fields [simp]:
  "draw_part (modify_effect p l v) = draw_part v"
  "rendered (modify_effect p l v) = rendered v"
  "draw_cleanup (modify_effect p l v) = draw_cleanup v"
  by (simp_all add: modify_effect_def Let_def split: option.splits)

lemma modify_effect_ok: "modify_part v = {} \<Longrightarrow> modify_ok (modify_effect p l v)"
  by (simp add: modify_ok_def modify_effect_def Let_def insert_commute split: option.splits)

lemma modify_effect_cleanup_iff:
  "modify_cleanup (modify_effect p l v) \<noteq> None \<longleftrightarrow> map_prop p \<noteq> None \<and> l \<noteq> None \<and> onModify p \<noteq> None"
  "modify_cleanup (modify_effect p l v) = Some (m, a, b) \<Longrightarrow> map_prop p = Some m"
  by (simp_all add: modify_effect_def Let_def split: option.splits)

lemma draw_effect_fields [simp]:
  "modify_part (draw_effect p v) = modify_part v"
  "rendered (draw_effect p v) = rendered v"
  "modify_cleanup (draw_effect p v) = modify_cleanup v"
  by (simp_all add: draw_effect_def Let_def split: option.splits)

lemma draw_effect_ok: "draw_part v = {} \<Longrightarrow> draw_ok (draw_effect p v)"
  by (simp add: draw_ok_def draw_effect_def Let_def split: option.splits)

lemma draw_effect_cleanup_iff:
  "draw_cleanup (draw_effect p v) \<noteq> None \<longleftrightarrow> map_prop p \<noteq> None \<and> onDraw p \<noteq> None"
  "draw_cleanup (draw_effect p v) = Some (m, a) \<Longrightarrow> map_prop p = Some m"
  by (simp_all add: draw_effect_def Let_def split: option.splits)

lemma parts_union: "set (interactions v) = modify_part v \<union> draw_part v"
  by (auto simp: modify_part_def draw_part_def)

lemma registered_draw: "registered Draw m v \<longleftrightarrow> (\<exists>i. (m, Draw, i) \<in> draw_part v)"
  by (force simp: registered_def list_ex_iff draw_part_def)

lemma registered_modify: "registered Modify m v \<longleftrightarrow> (\<exists>i. (m, Modify, i) \<in> modify_part v)"
  by (force simp: registered_def list_ex_iff modify_part_def)

lemma modify_inv_registered: "modify_inv v \<Longrightarrow> registered Modify m v \<longleftrightarrow> wants_modify m v"
  by (cases "modify_cleanup v"; cases "rendered v")
     (auto simp: modify_inv_def modify_for_def modify_ok_def registered_modify wants_modify_def)

lemma draw_inv_registered: "draw_inv v \<Longrightarrow> registered Draw m v \<longleftrightarrow> wants_draw m v"
  by (cases "draw_cleanup v"; cases "rendered v")
     (auto simp: draw_inv_def draw_for_def draw_ok_def registered_draw wants_draw_def)

lemma modify_for_cong:
  "modify_part v' = modify_part v \<Longrightarrow> modify_cleanup v' = modify_cleanup v \<Longrightarrow>
   modify_for mp l cb v' = modify_for mp l cb v"
  by (simp add: modify_for_def modify_ok_def)

lemma draw_for_cong:
  "draw_part v' = draw_part v \<Longrightarrow> draw_cleanup v' = draw_cleanup v \<Longrightarrow>
   draw_for mp cb v' = draw_for mp cb v"
  by (simp add: draw_for_def draw_ok_def)

lemma modify_for_skip [simp]:
  "modify_for mp l cb (draw_effect p v) = modify_for mp l cb v"
  "modify_for mp l cb (draw_effect_cleanup v) = modify_for mp l cb v"
  "modify_for mp l cb (v\<lparr>rendered := r\<rparr>) = modify_for mp l cb v"
  by (rule modify_for_cong; simp add: draw_cleanup_parts)+

lemma draw_for_skip [simp]:
  "draw_for mp cb (modify_effect p l v) = draw_for mp cb v"
  "draw_for mp cb (modify_effect_cleanup v) = draw_for mp cb v"
  "draw_for mp cb (v\<lparr>rendered := r\<rparr>) = draw_for mp cb v"
  by (rule draw_for_cong; simp add: modify_cleanup_parts)+

lemma modify_for_cleanup:
  "modify_for mp l cb v \<Longrightarrow> modify_for None None None (modify_effect_cleanup v)"
  by (simp add: modify_for_def modify_ok_def modify_cleanup_parts)

lemma draw_for_cleanup:
  "draw_for mp cb v \<Longrightarrow> draw_for None None (draw_effect_cleanup v)"
  by (simp add: draw_for_def draw_ok_def draw_cleanup_parts)

lemma modify_for_effect:
  "modify_for None None None v \<Longrightarrow> modify_for (map_prop p) l (onModify p) (modify_effect p l v)"
  by (cases "modify_cleanup v")
     (auto simp: modify_for_def modify_ok_def modify_effect_def Let_def split: option.splits)

lemma draw_for_effect:
  "draw_for None None v \<Longrightarrow> draw_for (map_prop p) (onDraw p) (draw_effect p v)"
  by (cases "draw_cleanup v")
     (auto simp: draw_for_def draw_ok_def draw_effect_def Let_def split: option.splits)

lemma step_modify_inv: "modify_inv v \<Longrightarrow> modify_inv (VectorLayer_step e v)"
proof (cases e)
  case (Render p l)
  assume inv: "modify_inv v"
  show ?thesis
  proof (cases "modify_deps_changed p l v")
    case True
    from inv obtain mp l' cb where "modify_for mp l' cb v"
      by (auto simp: modify_inv_def split: option.splits)
    then have "modify_for None None None (modify_effect_cleanup v)" by (rule modify_for_cleanup)
    then have "modify_for (map_prop p) l (onModify p)
        (modify_effect p l (draw_effect_cleanup (modify_effect_cleanup v)))"
      "modify_for (map_prop p) l (onModify p) (modify_effect p l (modify_effect_cleanup v))"
      by (simp_all add: modify_for_effect)
    with Render True show ?thesis by (simp add: Let_def modify_inv_def)
  next
    case False
    with inv have "modify_for (map_prop p) l (onModify p) v"
      by (auto simp: modify_inv_def modify_deps_changed_def split: option.splits)
    with Render False show ?thesis by (simp add: Let_def modify_inv_def)
  qed
next
  case Unmounted
  assume inv: "modify_inv v"
  then obtain mp l' cb where "modify_for mp l' cb v"
    by (auto simp: modify_inv_def split: option.splits)
  then have "modify_for None None None (modify_effect_cleanup v)" by (rule modify_for_cleanup)
  with Unmounted show ?thesis by (simp add: Let_def modify_inv_def)
qed

lemma step_draw_inv: "draw_inv v \<Longrightarrow> draw_inv (VectorLayer_step e v)"
proof (cases e)
  case (Render p l)
  assume inv: "draw_inv v"
  show ?thesis
  proof (cases "draw_deps_changed p l v")
    case True
    from inv obtain mp cb where "draw_for mp cb v"
      by (auto simp: draw_inv_def split: option.splits)
    then have c: "draw_for mp cb (modify_effect_cleanup v)" by simp
    from \<open>draw_for mp cb v\<close> have "draw_for None None (draw_effect_cleanup v)"
      by (rule draw_for_cleanup)
    moreover from c have "draw_for None None (draw_effect_cleanup (modify_effect_cleanup v))"
      by (rule draw_for_cleanup)
    ultimately have "draw_for (map_prop p) (onDraw p) (draw_effect p (draw_effect_cleanup v))"
      "draw_for (map_prop p) (onDraw p)
        (draw_effect p (modify_effect p l (draw_effect_cleanup (modify_effect_cleanup v))))"
      by (simp_all add: draw_for_effect)
    with Render True show ?thesis by (simp add: Let_def draw_inv_def)
  next
    case False
    with inv have "draw_for (map_prop p) (onDraw p) v"
      by (auto simp: draw_inv_def draw_deps_changed_def split: option.splits)
    with Render False show ?thesis by (simp add: Let_def draw_inv_def)
  qed
next
  case Unmounted
  assume inv: "draw_inv v"
  then obtain mp cb where "draw_for mp cb v"
    by (auto simp: draw_inv_def split: option.splits)
  then have "draw_for mp cb (modify_effect_cleanup v)" by simp
  then have "draw_for None None (draw_effect_cleanup (modify_effect_cleanup v))"
    by (rule draw_for_cleanup)
  with Unmounted show ?thesis by (simp add: Let_def draw_inv_def)
qed

lemma run_inv: "modify_inv (VectorLayer_run evs) \<and> draw_inv (VectorLayer_run evs)"
proof (induction evs rule: rev_induct)
  case Nil
  show ?case
    by (simp add: VectorLayer_run_def VectorLayer_init_def modify_inv_def draw_inv_def
          modify_for_def draw_for_def modify_ok_def draw_ok_def modify_part_def draw_part_def)
next
  case (snoc e evs)
  then show ?case by (simp add: VectorLayer_run_def step_modify_inv step_draw_inv)
qed

text \<open>
  C9, amended: after any sequence of renders, the draw interaction is registered with a
  map exactly when the last render had this map and an \<^verbatim>\<open>onDraw\<close>, the modify
  interaction exactly when it had this map, a vector layer and an \<^verbatim>\<open>onModify\<close>.  So at
  most one of the two is registered whenever \<^verbatim>\<open>onDraw\<close> and \<^verbatim>\<open>onModify\<close> are not
  both passed, and nothing is registered once the component has unmounted.
\<close>

theorem VectorLayer_interactions_follow_props:
  "(registered Draw m (VectorLayer_run evs) \<longleftrightarrow> wants_draw m (VectorLayer_run evs))
   \<and> (registered Modify m (VectorLayer_run evs) \<longleftrightarrow> wants_modify m (VectorLayer_run evs))
   \<and> (rendered (VectorLayer_run evs) = Some (p, l) \<and> (onDraw p = None \<or> onModify p = None) \<longrightarrow>
        \<not> (registered Draw m (VectorLayer_run evs) \<and> registered Modify m (VectorLayer_run evs)))
   \<and> (rendered (VectorLayer_run evs) = None \<longrightarrow> interactions (VectorLayer_run evs) = [])"
proof -
  from run_inv [of evs] have m: "modify_inv (VectorLayer_run evs)" and d: "draw_inv (VectorLayer_run evs)"
    by simp_all
  have 1: "registered Draw m (VectorLayer_run evs) \<longleftrightarrow> wants_draw m (VectorLayer_run evs)"
    by (rule draw_inv_registered [OF d])
  have 2: "registered Modify m (VectorLayer_run evs) \<longleftrightarrow> wants_modify m (VectorLayer_run evs)"
    by (rule modify_inv_registered [OF m])
  have 3: "rendered (VectorLayer_run evs) = Some (p, l) \<and> (onDraw p = None \<or> onModify p = None) \<longrightarrow>
        \<not> (registered Draw m (VectorLayer_run evs) \<and> registered Modify m (VectorLayer_run evs))"
    unfolding 1 2 by (auto simp: wants_draw_def wants_modify_def)
  have 4: "rendered (VectorLayer_run evs) = None \<longrightarrow> interactions (VectorLayer_run evs) = []"
  proof
    assume r: "rendered (VectorLayer_run evs) = None"
    with m d have "modify_part (VectorLayer_run evs) = {}" "draw_part (VectorLayer_run evs) = {}"
      by (auto simp: modify_inv_def draw_inv_def modify_for_def draw_for_def modify_ok_def draw_ok_def
            split: option.splits)
    then have "set (interactions (VectorLayer_run evs)) = {}" by (simp add: parts_union)
    then show "interactions (VectorLayer_run evs) = []" by simp
  qed
  from 1 2 3 4 show ?thesis by blast
qed

text \<open>
  C9 as stated fails: a render that passes both callbacks registers both interactions.
\<close>

theorem VectorLayer_draw_and_modify_counterexample:
  "registered Draw 0 (VectorLayer_run both_callbacks) \<and> registered Modify 0 (VectorLayer_run both_callbacks)"
  by code_simp

theorem VectorLayer_interactions_follow_props_witness:
  "rendered (VectorLayer_run draw_only) = Some (\<lparr>map_prop = Some 0, onModify = None, onDraw = Some 2\<rparr>, Some 3)
   \<and> registered Draw 0 (VectorLayer_run draw_only)
   \<and> \<not> registered Modify 0 (VectorLayer_run draw_only)
   \<and> rendered (VectorLayer_run (draw_only @ [Unmounted])) = None
   \<and> interactions (VectorLayer_run (draw_only @ [Unmounted])) = []"
proof -
  have r: "rendered (VectorLayer_run draw_only) = Some (\<lparr>map_prop = Some 0, onModify = None, onDraw = Some 2\<rparr>, Some 3)"
    by code_simp
  have d: "registered Draw 0 (VectorLayer_run draw_only)" by code_simp
  have u: "rendered (VectorLayer_run (draw_only @ [Unmounted])) = None" by code_simp
  have n: "\<not> registered Modify 0 (VectorLayer_run draw_only)" by code_simp
  from r d u n VectorLayer_interactions_follow_props [of 0 draw_only "\<lparr>map_prop = Some 0, onModify = None, onDraw = Some 2\<rparr>" "Some 3"]
    VectorLayer_interactions_follow_props [of 0 "draw_only @ [Unmounted]"]
  show ?thesis by simp
qed

subsection \<open>Submissions table\<close>

text \<open>
  When \<^verbatim>\<open>parseInt\<close> reads an integer from the input, that integer becomes the current page
  exactly when it lies between 1 and the number of pages, and the current page stays as
  it was otherwise; an empty input changes nothing.
\<close>

lemma handleChangePage_integer:
  "handleChangePage (Num pages) paginationPage (Num (n - 1)) =
     (if 1 \<le> n \<and> n \<le> pages then Num n else paginationPage)"
  by (simp add: handleChangePage_def)

lemma jumpTo_integer:
  "v \<noteq> [] \<Longrightarrow> parseInt v = Num n \<Longrightarrow>
   jumpTo (Num pages) paginationPage v = (if 1 \<le> n \<and> n \<le> pages then Num n else paginationPage)"
  by (simp add: jumpTo_def handleChangePage_def)

lemma jumpTo_empty: "jumpTo pages paginationPage [] = paginationPage"
  by (simp add: jumpTo_def)

lemma parseInt_examples:
  "parseInt ''7'' = Num 7 \<and> parseInt ''12.5'' = Num 12 \<and> parseInt ''-3'' = Num (- 3)
   \<and> parseInt ''1e3'' = Num 1 \<and> parseInt ''-.5'' = NaN"
  by (simp add: parseInt_def digit_value_def is_space_def)

lemma jumpTo_examples:
  "jumpTo (Num 10) (Num 3) ''7'' = Num 7 \<and> jumpTo (Num 10) (Num 3) ''11'' = Num 3
   \<and> jumpTo (Num 10) (Num 3) ''0'' = Num 3 \<and> jumpTo (Num 10) (Num 3) ''-3'' = Num 3"
  by (simp add: jumpTo_def handleChangePage_def parseInt_def digit_value_def is_space_def)

text \<open>
  C5 fails for an input that \<^verbatim>\<open>parseInt\<close> cannot read.  The value \<^verbatim>\<open>.5\<close> of the "Jump to"
  input is no page between 1 and the number of pages, yet \<^verbatim>\<open>parseInt\<close> gives \<^verbatim>\<open>NaN\<close> for
  it, neither comparison of the guard holds for \<^verbatim>\<open>NaN\<close>, and \<^verbatim>\<open>handleChangePage\<close> stores
  \<^verbatim>\<open>NaN\<close> as the current page, whatever the page count and the current page are.
\<close>

theorem jumpTo_fraction_stores_NaN:
  "parseInt ''.5'' = NaN
   \<and> handleChangePage pages paginationPage (js_sub NaN (Num 1)) = NaN
   \<and> jumpTo pages paginationPage ''.5'' = NaN
   \<and> jumpTo (Num 10) (Num 3) ''.5'' \<noteq> Num 3"
  by (simp add: jumpTo_def handleChangePage_def parseInt_def digit_value_def is_space_def)

end
